theory Spec2Isabelle
  imports Main "HOL-Library.Word" "HOL-Library.List_Lexorder" "HOL-Library.Char_ord"
begin

section \<open>Basic types and constants (include/types.h)\<close>

type_synonym uint64 = "64 word"
type_synonym uint32 = "32 word"
type_synonym uint8 = "8 word"
type_synonym PublicAddress = string
type_synonym TransactionHash = string
type_synonym Timestamp = uint64

definition UC_TOKEN_SUPPLY :: uint64 where
  "UC_TOKEN_SUPPLY = 1000"

definition UC_UNIT :: uint64 where
  "UC_UNIT = 100000000"

definition UC_TO_UNITS :: "uint64 \<Rightarrow> uint64" where
  "UC_TO_UNITS uc = uc * UC_UNIT"

datatype ContributorTier = RECOGNIZED | SILVER | GOLD | PLATINUM | FOUNDER

text \<open>\<open>static_cast<uint8>(tier)\<close>: the enumerators' values.\<close>

fun tier_index :: "ContributorTier \<Rightarrow> nat" where
  "tier_index RECOGNIZED = 0"
| "tier_index SILVER = 1"
| "tier_index GOLD = 2"
| "tier_index PLATINUM = 3"
| "tier_index FOUNDER = 4"

definition VOTING_POWER :: "uint8 list" where
  "VOTING_POWER = [1, 2, 3, 4, 5]"

definition MONTHLY_REWARD_POOL :: uint64 where
  "MONTHLY_REWARD_POOL = 30"

definition REWARD_DISTRIBUTION :: "uint8 list" where
  "REWARD_DISTRIBUTION = [20, 20, 30, 40, 100]"

datatype VerificationLevel = UNVERIFIED | BASIC | ADVANCED | AUDIT_COMPLETE

fun level_index :: "VerificationLevel \<Rightarrow> nat" where
  "level_index UNVERIFIED = 0"
| "level_index BASIC = 1"
| "level_index ADVANCED = 2"
| "level_index AUDIT_COMPLETE = 3"

datatype ScoreCategory = CODE_QUALITY | DOCUMENTATION | TESTING | INNOVATION | COMMUNITY_IMPACT

fun category_index :: "ScoreCategory \<Rightarrow> nat" where
  "category_index CODE_QUALITY = 0"
| "category_index DOCUMENTATION = 1"
| "category_index TESTING = 2"
| "category_index INNOVATION = 3"
| "category_index COMMUNITY_IMPACT = 4"

definition MAX_CATEGORY_SCORE :: uint8 where
  "MAX_CATEGORY_SCORE = 100"

definition PROPOSAL_VOTING_PERIOD_HOURS :: uint64 where
  "PROPOSAL_VOTING_PERIOD_HOURS = 72"

datatype ProposalStatus = PENDING | ACTIVE | PASSED | FAILED | EXECUTED | CANCELLED

datatype VoteType = FOR | AGAINST | ABSTAIN

subsection \<open>\<open>std::to_string\<close> on unsigned and signed 64-bit values\<close>

definition digit_char :: "nat \<Rightarrow> char" where
  "digit_char d = ''0123456789'' ! (d mod 10)"

function dec_string :: "nat \<Rightarrow> string" where
  "dec_string n = (if n < 10 then [digit_char n] else dec_string (n div 10) @ [digit_char (n mod 10)])"
  by pat_completeness auto
termination
  by (relation "measure id") auto

declare dec_string.simps [simp del]

text \<open>\<open>std::to_string(uint64)\<close>.\<close>

definition to_string :: "uint64 \<Rightarrow> string" where
  "to_string w = dec_string (unat w)"

text \<open>\<open>std::to_string(uint32)\<close>.\<close>

definition to_string32 :: "uint32 \<Rightarrow> string" where
  "to_string32 w = dec_string (unat w)"

text \<open>
  \<open>std::to_string(std::time(nullptr))\<close>: \<open>time_t\<close> is a signed 64-bit value. The clock is
  an input of every operation that reads it (the argument \<open>now\<close>); it is passed as the 64
  bits that \<open>static_cast<uint64>\<close> keeps, and printed here as the signed value. An operation
  that reads the clock more than once is given the one value for all its reads.
\<close>

definition to_string_time :: "Timestamp \<Rightarrow> string" where
  "to_string_time w = (if sint w < 0 then ''-'' @ dec_string (nat (- sint w)) else dec_string (nat (sint w)))"

subsection \<open>\<open>std::map\<close> as an association list in key order\<close>

text \<open>
  \<open>std::map\<close> iterates in increasing key order; \<open>m[k] = v\<close> replaces the value of an
  existing key and otherwise inserts at the key's place. \<open>find\<close> is \<open>map_of\<close>.
\<close>

fun map_insert :: "'k::linorder \<Rightarrow> 'v \<Rightarrow> ('k \<times> 'v) list \<Rightarrow> ('k \<times> 'v) list" where
  "map_insert k v [] = [(k, v)]"
| "map_insert k v ((k', v') # xs) =
     (if k = k' then (k, v) # xs
      else if k < k' then (k, v) # (k', v') # xs
      else (k', v') # map_insert k v xs)"

definition keys_ordered :: "('k::linorder \<times> 'v) list \<Rightarrow> bool" where
  "keys_ordered xs = sorted_wrt (<) (map fst xs)"

section \<open>The ledger (UCTokenContract)\<close>

record Account =
  address :: PublicAddress
  balance :: uint64
  nonce :: uint64
  createdAt :: Timestamp

text \<open>\<open>Account()\<close> and \<open>Account(addr)\<close>.\<close>

definition Account_default :: Account where
  "Account_default = \<lparr>address = [], balance = 0, nonce = 0, createdAt = 0\<rparr>"

definition Account_new :: "PublicAddress \<Rightarrow> Account" where
  "Account_new addr = \<lparr>address = addr, balance = 0, nonce = 0, createdAt = 0\<rparr>"

record UCTokenContract =
  accounts :: "(PublicAddress \<times> Account) list"
  allowances :: "PublicAddress \<times> PublicAddress \<rightharpoonup> uint64"
  transactionHistories :: "PublicAddress \<rightharpoonup> TransactionHash list"
  totalSupply :: uint64
  treasuryBalance :: uint64
  transactionCount :: uint64
  governors :: "PublicAddress set"
  treasuryAddress :: PublicAddress

text \<open>The constructor; \<open>now\<close> is the value of \<open>std::time(nullptr)\<close>.\<close>

definition UCTokenContract_init :: "Timestamp \<Rightarrow> UCTokenContract" where
  "UCTokenContract_init now =
     \<lparr>accounts = [(''__TREASURY__'',
          (Account_new ''__TREASURY__'')\<lparr>balance := UC_TOKEN_SUPPLY * UC_UNIT, createdAt := now\<rparr>)],
      allowances = Map.empty,
      transactionHistories = Map.empty,
      totalSupply = UC_TOKEN_SUPPLY * UC_UNIT,
      treasuryBalance = UC_TOKEN_SUPPLY * UC_UNIT,
      transactionCount = 0,
      governors = {},
      treasuryAddress = ''__TREASURY__''\<rparr>"

definition balanceOf :: "UCTokenContract \<Rightarrow> PublicAddress \<Rightarrow> uint64" where
  "balanceOf s account = (case map_of (accounts s) account of Some a \<Rightarrow> balance a | None \<Rightarrow> 0)"

definition allowance :: "UCTokenContract \<Rightarrow> PublicAddress \<Rightarrow> PublicAddress \<Rightarrow> uint64" where
  "allowance s owner spender = (case allowances s (owner, spender) of Some v \<Rightarrow> v | None \<Rightarrow> 0)"

definition validateAmount :: "UCTokenContract \<Rightarrow> uint64 \<Rightarrow> bool" where
  "validateAmount s amount = (amount > 0 \<and> amount \<le> totalSupply s)"

definition validateAddress :: "PublicAddress \<Rightarrow> bool" where
  "validateAddress addr = (addr \<noteq> [] \<and> length addr \<le> 256)"

text \<open>\<open>accounts[k]\<close> read: a missing key yields the value-initialised \<open>Account()\<close>.\<close>

definition acc_at :: "(PublicAddress \<times> Account) list \<Rightarrow> PublicAddress \<Rightarrow> Account" where
  "acc_at m k = (case map_of m k of Some a \<Rightarrow> a | None \<Rightarrow> Account_default)"

text \<open>\<open>accounts[k].field op= x\<close>: \<open>operator[]\<close> inserts \<open>Account()\<close> when the key is missing.\<close>

definition acc_modify :: "PublicAddress \<Rightarrow> (Account \<Rightarrow> Account) \<Rightarrow> (PublicAddress \<times> Account) list
    \<Rightarrow> (PublicAddress \<times> Account) list" where
  "acc_modify k f m = map_insert k (f (acc_at m k)) m"

text \<open>The block "register recipient if not exists".\<close>

definition ensure_account :: "PublicAddress \<Rightarrow> Timestamp \<Rightarrow> (PublicAddress \<times> Account) list
    \<Rightarrow> (PublicAddress \<times> Account) list" where
  "ensure_account r now m =
     (if map_of m r = None then map_insert r ((Account_new r)\<lparr>createdAt := now\<rparr>) m else m)"

definition history_push :: "PublicAddress \<Rightarrow> TransactionHash \<Rightarrow> (PublicAddress \<rightharpoonup> TransactionHash list)
    \<Rightarrow> (PublicAddress \<rightharpoonup> TransactionHash list)" where
  "history_push k tx h = h(k \<mapsto> (case h k of Some l \<Rightarrow> l | None \<Rightarrow> []) @ [tx])"

definition recordTransaction :: "PublicAddress \<Rightarrow> PublicAddress \<Rightarrow> uint64 \<Rightarrow> TransactionHash
    \<Rightarrow> UCTokenContract \<Rightarrow> UCTokenContract" where
  "recordTransaction from to amount txHash s =
     s\<lparr>transactionHistories := history_push to txHash (history_push from txHash (transactionHistories s))\<rparr>"

definition transfer :: "PublicAddress \<Rightarrow> uint64 \<Rightarrow> Timestamp \<Rightarrow> UCTokenContract \<Rightarrow> bool \<times> UCTokenContract" where
  "transfer recipient amount now s =
     (if \<not> validateAddress recipient \<or> \<not> validateAmount s amount then (False, s)
      else if map_of (accounts s) (treasuryAddress s) = None
              \<or> balance (acc_at (accounts s) (treasuryAddress s)) < amount then (False, s)
      else
        let a1 = ensure_account recipient now (accounts s);
            a2 = acc_modify (treasuryAddress s) (\<lambda>a. a\<lparr>balance := balance a - amount\<rparr>) a1;
            a3 = acc_modify recipient (\<lambda>a. a\<lparr>balance := balance a + amount\<rparr>) a2;
            a4 = acc_modify (treasuryAddress s) (\<lambda>a. a\<lparr>nonce := nonce a + 1\<rparr>) a3;
            txHash = ''tx_'' @ to_string (transactionCount s)
        in (True, recordTransaction (treasuryAddress s) recipient amount txHash
                    (s\<lparr>accounts := a4, transactionCount := transactionCount s + 1\<rparr>)))"

definition transferFrom :: "PublicAddress \<Rightarrow> PublicAddress \<Rightarrow> uint64 \<Rightarrow> Timestamp \<Rightarrow> UCTokenContract
    \<Rightarrow> bool \<times> UCTokenContract" where
  "transferFrom owner recipient amount now s =
     (if \<not> validateAddress owner \<or> \<not> validateAddress recipient \<or> \<not> validateAmount s amount
      then (False, s)
      else if allowance s owner recipient < amount then (False, s)
      else if map_of (accounts s) owner = None \<or> balance (acc_at (accounts s) owner) < amount
      then (False, s)
      else
        let a1 = ensure_account recipient now (accounts s);
            a2 = acc_modify owner (\<lambda>a. a\<lparr>balance := balance a - amount\<rparr>) a1;
            a3 = acc_modify recipient (\<lambda>a. a\<lparr>balance := balance a + amount\<rparr>) a2;
            a4 = acc_modify owner (\<lambda>a. a\<lparr>nonce := nonce a + 1\<rparr>) a3;
            al = (allowances s)((owner, recipient) \<mapsto> allowance s owner recipient - amount);
            txHash = ''tx_'' @ to_string (transactionCount s)
        in (True, recordTransaction owner recipient amount txHash
                    (s\<lparr>accounts := a4, allowances := al, transactionCount := transactionCount s + 1\<rparr>)))"

definition approve :: "PublicAddress \<Rightarrow> uint64 \<Rightarrow> UCTokenContract \<Rightarrow> bool \<times> UCTokenContract" where
  "approve spender amount s =
     (if \<not> validateAddress spender \<or> \<not> validateAmount s amount then (False, s)
      else (True, s\<lparr>allowances := (allowances s)((treasuryAddress s, spender) \<mapsto> amount)\<rparr>))"

definition increaseAllowance :: "PublicAddress \<Rightarrow> uint64 \<Rightarrow> UCTokenContract \<Rightarrow> bool \<times> UCTokenContract" where
  "increaseAllowance spender addedValue s =
     (if \<not> validateAddress spender \<or> \<not> validateAmount s addedValue then (False, s)
      else
        let current = allowance s (treasuryAddress s) spender
        in (True, s\<lparr>allowances := (allowances s)((treasuryAddress s, spender) \<mapsto> current + addedValue)\<rparr>))"

definition decreaseAllowance :: "PublicAddress \<Rightarrow> uint64 \<Rightarrow> UCTokenContract \<Rightarrow> bool \<times> UCTokenContract" where
  "decreaseAllowance spender subtractedValue s =
     (if \<not> validateAddress spender \<or> \<not> validateAmount s subtractedValue then (False, s)
      else
        let current = allowance s (treasuryAddress s) spender
        in if current < subtractedValue then (False, s)
           else (True, s\<lparr>allowances :=
                   (allowances s)((treasuryAddress s, spender) \<mapsto> current - subtractedValue)\<rparr>))"

definition mint :: "PublicAddress \<Rightarrow> uint64 \<Rightarrow> Timestamp \<Rightarrow> UCTokenContract \<Rightarrow> bool \<times> UCTokenContract" where
  "mint account amount now s =
     (if \<not> validateAddress account \<or> \<not> validateAmount s amount then (False, s)
      else
        let a1 = ensure_account account now (accounts s);
            a2 = acc_modify account (\<lambda>a. a\<lparr>balance := balance a + amount\<rparr>) a1;
            txHash = ''mint_'' @ to_string (transactionCount s)
        in (True, recordTransaction ''__MINT__'' account amount txHash
                    (s\<lparr>accounts := a2, totalSupply := totalSupply s + amount,
                       transactionCount := transactionCount s + 1\<rparr>)))"

definition burn :: "PublicAddress \<Rightarrow> uint64 \<Rightarrow> UCTokenContract \<Rightarrow> bool \<times> UCTokenContract" where
  "burn account amount s =
     (if \<not> validateAddress account \<or> \<not> validateAmount s amount then (False, s)
      else if map_of (accounts s) account = None \<or> balance (acc_at (accounts s) account) < amount
      then (False, s)
      else
        let a1 = acc_modify account (\<lambda>a. a\<lparr>balance := balance a - amount\<rparr>) (accounts s);
            txHash = ''burn_'' @ to_string (transactionCount s)
        in (True, recordTransaction account ''__BURN__'' amount txHash
                    (s\<lparr>accounts := a1, totalSupply := totalSupply s - amount,
                       transactionCount := transactionCount s + 1\<rparr>)))"

definition distributeReward :: "PublicAddress \<Rightarrow> uint64 \<Rightarrow> Timestamp \<Rightarrow> UCTokenContract
    \<Rightarrow> bool \<times> UCTokenContract" where
  "distributeReward recipient amount now s =
     (if \<not> validateAddress recipient \<or> \<not> validateAmount s amount \<or> amount > treasuryBalance s
      then (False, s)
      else
        let a1 = ensure_account recipient now (accounts s);
            a2 = acc_modify (treasuryAddress s) (\<lambda>a. a\<lparr>balance := balance a - amount\<rparr>) a1;
            a3 = acc_modify recipient (\<lambda>a. a\<lparr>balance := balance a + amount\<rparr>) a2;
            txHash = ''reward_'' @ to_string (transactionCount s)
        in (True, recordTransaction (treasuryAddress s) recipient amount txHash
                    (s\<lparr>accounts := a3, treasuryBalance := treasuryBalance s - amount,
                       transactionCount := transactionCount s + 1\<rparr>)))"

definition treasuryWithdraw :: "PublicAddress \<Rightarrow> uint64 \<Rightarrow> Timestamp \<Rightarrow> UCTokenContract
    \<Rightarrow> bool \<times> UCTokenContract" where
  "treasuryWithdraw recipient amount now s =
     (if \<not> validateAddress recipient \<or> \<not> validateAmount s amount \<or> amount > treasuryBalance s
      then (False, s)
      else
        let a1 = acc_modify (treasuryAddress s) (\<lambda>a. a\<lparr>balance := balance a - amount\<rparr>) (accounts s);
            a2 = ensure_account recipient now a1;
            a3 = acc_modify recipient (\<lambda>a. a\<lparr>balance := balance a + amount\<rparr>) a2;
            txHash = ''withdraw_'' @ to_string (transactionCount s)
        in (True, recordTransaction (treasuryAddress s) recipient amount txHash
                    (s\<lparr>accounts := a3, treasuryBalance := treasuryBalance s - amount,
                       transactionCount := transactionCount s + 1\<rparr>)))"

definition treasuryDeposit :: "PublicAddress \<Rightarrow> uint64 \<Rightarrow> UCTokenContract \<Rightarrow> bool \<times> UCTokenContract" where
  "treasuryDeposit contributor amount s =
     (if \<not> validateAddress contributor \<or> \<not> validateAmount s amount then (False, s)
      else if map_of (accounts s) contributor = None
              \<or> balance (acc_at (accounts s) contributor) < amount
      then (False, s)
      else
        let a1 = acc_modify contributor (\<lambda>a. a\<lparr>balance := balance a - amount\<rparr>) (accounts s);
            a2 = acc_modify (treasuryAddress s) (\<lambda>a. a\<lparr>balance := balance a + amount\<rparr>) a1;
            txHash = ''deposit_'' @ to_string (transactionCount s)
        in (True, recordTransaction contributor (treasuryAddress s) amount txHash
                    (s\<lparr>accounts := a2, treasuryBalance := treasuryBalance s + amount,
                       transactionCount := transactionCount s + 1\<rparr>)))"

definition registerAccount :: "PublicAddress \<Rightarrow> Timestamp \<Rightarrow> UCTokenContract \<Rightarrow> bool \<times> UCTokenContract" where
  "registerAccount account now s =
     (if \<not> validateAddress account then (False, s)
      else if map_of (accounts s) account \<noteq> None then (False, s)
      else (True, s\<lparr>accounts := map_insert account ((Account_new account)\<lparr>createdAt := now\<rparr>) (accounts s)\<rparr>))"

text \<open>\<open>verifyIntegrity\<close>: the loop adds the balances in the map's iteration order.\<close>

definition sum_balances :: "(PublicAddress \<times> Account) list \<Rightarrow> uint64" where
  "sum_balances m = foldl (\<lambda>sumBalances account. sumBalances + balance (snd account)) 0 m"

definition verifyIntegrity :: "UCTokenContract \<Rightarrow> bool" where
  "verifyIntegrity s = (sum_balances (accounts s) = totalSupply s)"

subsection \<open>Sequences of ledger operations\<close>

datatype ledger_op =
    Transfer PublicAddress uint64 Timestamp
  | TransferFrom PublicAddress PublicAddress uint64 Timestamp
  | Approve PublicAddress uint64
  | IncreaseAllowance PublicAddress uint64
  | DecreaseAllowance PublicAddress uint64
  | Mint PublicAddress uint64 Timestamp
  | Burn PublicAddress uint64
  | DistributeReward PublicAddress uint64 Timestamp
  | TreasuryWithdraw PublicAddress uint64 Timestamp
  | TreasuryDeposit PublicAddress uint64
  | RegisterAccount PublicAddress Timestamp

fun ledger_call :: "ledger_op \<Rightarrow> UCTokenContract \<Rightarrow> bool \<times> UCTokenContract" where
  "ledger_call (Transfer r a now) s = transfer r a now s"
| "ledger_call (TransferFrom ow r a now) s = transferFrom ow r a now s"
| "ledger_call (Approve sp a) s = approve sp a s"
| "ledger_call (IncreaseAllowance sp a) s = increaseAllowance sp a s"
| "ledger_call (DecreaseAllowance sp a) s = decreaseAllowance sp a s"
| "ledger_call (Mint acc a now) s = mint acc a now s"
| "ledger_call (Burn acc a) s = burn acc a s"
| "ledger_call (DistributeReward r a now) s = distributeReward r a now s"
| "ledger_call (TreasuryWithdraw r a now) s = treasuryWithdraw r a now s"
| "ledger_call (TreasuryDeposit c a) s = treasuryDeposit c a s"
| "ledger_call (RegisterAccount acc now) s = registerAccount acc now s"

fun ledger_run :: "ledger_op list \<Rightarrow> UCTokenContract \<Rightarrow> UCTokenContract" where
  "ledger_run [] s = s"
| "ledger_run (op # ops) s = ledger_run ops (snd (ledger_call op s))"

text \<open>The ledger after each operation of a sequence, in order.\<close>

fun ledger_states :: "ledger_op list \<Rightarrow> UCTokenContract \<Rightarrow> UCTokenContract list" where
  "ledger_states [] s = []"
| "ledger_states (op # ops) s = snd (ledger_call op s) # ledger_states ops (snd (ledger_call op s))"

text \<open>The invariant of the ledger: the map is in key order and the balances add up.\<close>

definition ledger_inv :: "UCTokenContract \<Rightarrow> bool" where
  "ledger_inv s = (keys_ordered (accounts s) \<and> verifyIntegrity s)"

section \<open>The governance registry (UCICDaoContract)\<close>

record Contributor =
  address :: PublicAddress
  tier :: ContributorTier
  compositeScore :: uint32
  pointsEarned :: uint64
  rewardsReceived :: uint64
  joinedAt :: Timestamp
  lastRewardClaimAt :: Timestamp
  auditTrail :: "TransactionHash list"

text \<open>\<open>Contributor()\<close>.\<close>

definition Contributor_default :: Contributor where
  "Contributor_default =
     \<lparr>address = [], tier = RECOGNIZED, compositeScore = 0, pointsEarned = 0, rewardsReceived = 0,
      joinedAt = 0, lastRewardClaimAt = 0, auditTrail = []\<rparr>"

record CategoryScore =
  category :: ScoreCategory
  score :: uint8
  evidence :: string
  submittedAt :: Timestamp

record Proposal =
  proposalId :: uint32
  proposer :: PublicAddress
  title :: string
  description :: string
  status :: ProposalStatus
  votesFor :: uint64
  votesAgainst :: uint64
  votesAbstain :: uint64
  createdAt :: Timestamp
  votingDeadline :: Timestamp
  executionTime :: Timestamp

text \<open>\<open>Proposal()\<close>.\<close>

definition Proposal_default :: Proposal where
  "Proposal_default =
     \<lparr>proposalId = 0, proposer = [], title = [], description = [], status = PENDING,
      votesFor = 0, votesAgainst = 0, votesAbstain = 0,
      createdAt = 0, votingDeadline = 0, executionTime = 0\<rparr>"

record Vote =
  proposalId :: uint32
  voter :: PublicAddress
  voteType :: VoteType
  votingPower :: uint64
  votedAt :: Timestamp

text \<open>
  The contract's fields. Its \<open>tokenContract\<close> pointer is not a field here: the operation that
  follows it (\<open>distributeMonthlyRewards\<close>) takes the ledger as an argument and returns it.
\<close>

record UCICDaoContract =
  contributors :: "(PublicAddress \<times> Contributor) list"
  proposals :: "uint32 \<rightharpoonup> Proposal"
  votes :: "uint32 \<times> PublicAddress \<rightharpoonup> Vote"
  governanceLog :: "TransactionHash list"
  nextProposalId :: uint32
  totalRewardsDistributed :: uint64
  lastRewardDistribution :: Timestamp

definition UCICDaoContract_init :: UCICDaoContract where
  "UCICDaoContract_init =
     \<lparr>contributors = [], proposals = Map.empty, votes = Map.empty, governanceLog = [],
      nextProposalId = 1, totalRewardsDistributed = 0, lastRewardDistribution = 0\<rparr>"

definition recordGovernanceAction :: "string \<Rightarrow> PublicAddress \<Rightarrow> TransactionHash
    \<Rightarrow> UCICDaoContract \<Rightarrow> UCICDaoContract" where
  "recordGovernanceAction action actor txHash d = d\<lparr>governanceLog := governanceLog d @ [txHash]\<rparr>"

text \<open>
  A write through an iterator that \<open>contributors.find\<close> returned: the entry is replaced in
  place; nothing happens when the key is absent (the callers return before).
\<close>

definition contrib_update :: "PublicAddress \<Rightarrow> (Contributor \<Rightarrow> Contributor)
    \<Rightarrow> UCICDaoContract \<Rightarrow> UCICDaoContract" where
  "contrib_update k f d =
     (case map_of (contributors d) k of
        None \<Rightarrow> d
      | Some c \<Rightarrow> d\<lparr>contributors := map_insert k (f c) (contributors d)\<rparr>)"

definition registerContributor :: "PublicAddress \<Rightarrow> PublicAddress \<Rightarrow> Timestamp
    \<Rightarrow> UCICDaoContract \<Rightarrow> bool \<times> UCICDaoContract" where
  "registerContributor addr referrer now d =
     (if map_of (contributors d) addr \<noteq> None then (False, d)
      else
        let contrib = \<lparr>address = addr, tier = RECOGNIZED, compositeScore = 0, pointsEarned = 0,
                       rewardsReceived = 0, joinedAt = now, lastRewardClaimAt = 0, auditTrail = []\<rparr>;
            txHash = ''register_'' @ addr @ ''_'' @ to_string_time now
        in (True, recordGovernanceAction ''register_contributor'' addr txHash
                    (d\<lparr>contributors := map_insert addr contrib (contributors d)\<rparr>)))"

definition getContributor :: "UCICDaoContract \<Rightarrow> PublicAddress \<Rightarrow> Contributor" where
  "getContributor d addr = (case map_of (contributors d) addr of Some c \<Rightarrow> c | None \<Rightarrow> Contributor_default)"

definition isContributor :: "UCICDaoContract \<Rightarrow> PublicAddress \<Rightarrow> bool" where
  "isContributor d addr = (map_of (contributors d) addr \<noteq> None)"

text \<open>
  The operands are \<open>uint8\<close>, promoted to the 32-bit \<open>int\<close>: the sum is at most
  \<open>255 * 100\<close>, so it neither overflows nor is negative, and the quotient converted to
  \<open>uint32\<close> is the quotient of the 32-bit words.
\<close>

definition calculateCompositeScore :: "uint8 \<Rightarrow> uint8 \<Rightarrow> uint8 \<Rightarrow> uint8 \<Rightarrow> uint8 \<Rightarrow> uint32" where
  "calculateCompositeScore codeQuality documentation testing innovation community =
     (ucast codeQuality * 25 + ucast documentation * 20 + ucast testing * 20
      + ucast innovation * 20 + ucast community * 15) div 100"

definition getCompositeScore :: "UCICDaoContract \<Rightarrow> PublicAddress \<Rightarrow> uint32" where
  "getCompositeScore d addr = (case map_of (contributors d) addr of Some c \<Rightarrow> compositeScore c | None \<Rightarrow> 0)"

definition getTier :: "UCICDaoContract \<Rightarrow> PublicAddress \<Rightarrow> ContributorTier" where
  "getTier d addr = (case map_of (contributors d) addr of Some c \<Rightarrow> tier c | None \<Rightarrow> RECOGNIZED)"

fun getTierThreshold :: "ContributorTier \<Rightarrow> uint32" where
  "getTierThreshold RECOGNIZED = 0"
| "getTierThreshold SILVER = 100"
| "getTierThreshold GOLD = 250"
| "getTierThreshold PLATINUM = 500"
| "getTierThreshold FOUNDER = 1000"

definition updateTier :: "PublicAddress \<Rightarrow> UCICDaoContract \<Rightarrow> UCICDaoContract" where
  "updateTier addr d =
     (case map_of (contributors d) addr of
        None \<Rightarrow> d
      | Some c \<Rightarrow>
          let score = compositeScore c;
              newTier = (if score \<ge> getTierThreshold PLATINUM then PLATINUM
                         else if score \<ge> getTierThreshold GOLD then GOLD
                         else if score \<ge> getTierThreshold SILVER then SILVER
                         else RECOGNIZED)
          in contrib_update addr (\<lambda>c. c\<lparr>tier := newTier\<rparr>) d)"

text \<open>
  The loop over \<open>scores\<close> writes \<open>values[idx] = score.score\<close> (a later entry of a category
  overwrites an earlier one); the array \<open>counts\<close> is written and never read.
\<close>

definition category_values :: "CategoryScore list \<Rightarrow> uint8 list" where
  "category_values scores =
     foldl (\<lambda>values sc. values[category_index (category sc) := score sc]) (replicate 5 0) scores"

text \<open>The value \<open>newScore\<close> that \<open>submitCompositeScore\<close> computes from the scores.\<close>

definition composite_of_scores :: "CategoryScore list \<Rightarrow> uint32" where
  "composite_of_scores scores =
     (let values = category_values scores
      in calculateCompositeScore (values ! 0) (values ! 1) (values ! 2) (values ! 3) (values ! 4))"

definition submitCompositeScore :: "PublicAddress \<Rightarrow> CategoryScore list \<Rightarrow> Timestamp
    \<Rightarrow> UCICDaoContract \<Rightarrow> bool \<times> UCICDaoContract" where
  "submitCompositeScore contributor scores now d =
     (if map_of (contributors d) contributor = None then (False, d)
      else
        let newScore = composite_of_scores scores;
            d1 = contrib_update contributor
                   (\<lambda>c. c\<lparr>compositeScore := newScore, pointsEarned := pointsEarned c + ucast newScore\<rparr>) d;
            d2 = updateTier contributor d1;
            txHash = ''score_'' @ contributor @ ''_'' @ to_string_time now
        in (True, contrib_update contributor (\<lambda>c. c\<lparr>auditTrail := auditTrail c @ [txHash]\<rparr>) d2))"

definition getContributorsInTier :: "UCICDaoContract \<Rightarrow> ContributorTier \<Rightarrow> PublicAddress list" where
  "getContributorsInTier d t = map fst (filter (\<lambda>contrib. tier (snd contrib) = t) (contributors d))"

text \<open>
  \<open>tierGroups\<close> of \<open>distributeMonthlyRewards\<close>: the loop appends every contributor's address to
  the vector of its tier, in the map's order. A tier without a vector and a tier with an
  empty one are treated alike by the caller, so a missing key is the empty list here.
\<close>

definition tierGroups :: "(PublicAddress \<times> Contributor) list \<Rightarrow> ContributorTier \<Rightarrow> PublicAddress list" where
  "tierGroups cs =
     foldl (\<lambda>groups contrib. groups(tier (snd contrib) := groups (tier (snd contrib)) @ [fst contrib]))
       (\<lambda>_. []) cs"

text \<open>
  The inner loop: one \<open>distributeReward\<close> per address of the tier; the state is the count of
  rewarded contributors, the registry and the ledger.
\<close>

fun reward_members :: "PublicAddress list \<Rightarrow> uint64 \<Rightarrow> Timestamp \<Rightarrow> Timestamp
    \<Rightarrow> uint64 \<times> UCICDaoContract \<times> UCTokenContract \<Rightarrow> uint64 \<times> UCICDaoContract \<times> UCTokenContract" where
  "reward_members [] perContributorReward timestamp now st = st"
| "reward_members (addr # rest) perContributorReward timestamp now (rewardedCount, d, t) =
     (if fst (distributeReward addr perContributorReward now t)
      then reward_members rest perContributorReward timestamp now
             (if map_of (contributors d) addr \<noteq> None
              then (rewardedCount + 1,
                    contrib_update addr
                      (\<lambda>c. c\<lparr>rewardsReceived := rewardsReceived c + perContributorReward,
                              lastRewardClaimAt := timestamp\<rparr>) d,
                    snd (distributeReward addr perContributorReward now t))
              else (rewardedCount, d, snd (distributeReward addr perContributorReward now t)))
      else reward_members rest perContributorReward timestamp now
             (rewardedCount, d, snd (distributeReward addr perContributorReward now t)))"

text \<open>The outer loop, over the tiers from \<open>FOUNDER\<close> down to \<open>RECOGNIZED\<close>.\<close>

fun reward_tiers :: "ContributorTier list \<Rightarrow> (ContributorTier \<Rightarrow> PublicAddress list) \<Rightarrow> uint64
    \<Rightarrow> Timestamp \<Rightarrow> Timestamp
    \<Rightarrow> uint64 \<times> UCICDaoContract \<times> UCTokenContract \<Rightarrow> uint64 \<times> UCICDaoContract \<times> UCTokenContract" where
  "reward_tiers [] groups monthlyPool timestamp now st = st"
| "reward_tiers (tr # trs) groups monthlyPool timestamp now st =
     (if groups tr = [] then reward_tiers trs groups monthlyPool timestamp now st
      else
        let percentage = REWARD_DISTRIBUTION ! tier_index tr;
            tierReward = (monthlyPool * ucast percentage) div 100;
            perContributorReward = tierReward div of_nat (length (groups tr))
        in reward_tiers trs groups monthlyPool timestamp now
             (reward_members (groups tr) perContributorReward timestamp now st))"

definition distributeMonthlyRewards :: "Timestamp \<Rightarrow> Timestamp \<Rightarrow> UCICDaoContract \<Rightarrow> UCTokenContract
    \<Rightarrow> uint64 \<times> UCICDaoContract \<times> UCTokenContract" where
  "distributeMonthlyRewards timestamp now d t =
     (let monthlyPool = UC_TO_UNITS MONTHLY_REWARD_POOL;
          groups = tierGroups (contributors d);
          st = reward_tiers [FOUNDER, PLATINUM, GOLD, SILVER, RECOGNIZED] groups monthlyPool
                 timestamp now (0, d, t);
          d1 = (fst (snd st))\<lparr>totalRewardsDistributed := totalRewardsDistributed (fst (snd st)) + monthlyPool,
                               lastRewardDistribution := timestamp\<rparr>;
          txHash = ''reward_dist_'' @ to_string timestamp
      in (fst st, recordGovernanceAction ''distribute_monthly_rewards'' ''__DAO__'' txHash d1, snd (snd st)))"

definition getPendingReward :: "UCICDaoContract \<Rightarrow> PublicAddress \<Rightarrow> uint64" where
  "getPendingReward d addr =
     (case map_of (contributors d) addr of
        None \<Rightarrow> 0
      | Some c \<Rightarrow>
          let percentage = REWARD_DISTRIBUTION ! tier_index (tier c);
              monthlyPool = UC_TO_UNITS MONTHLY_REWARD_POOL
          in (monthlyPool * ucast percentage) div 100)"

definition claimRewards :: "PublicAddress \<Rightarrow> Timestamp \<Rightarrow> UCICDaoContract \<Rightarrow> uint64 \<times> UCICDaoContract" where
  "claimRewards contributor now d =
     (if map_of (contributors d) contributor = None then (0, d)
      else
        let pending = getPendingReward d contributor
        in (pending,
            if pending > 0
            then contrib_update contributor
                   (\<lambda>c. c\<lparr>rewardsReceived := rewardsReceived c + pending, lastRewardClaimAt := now\<rparr>) d
            else d))"

definition validateProposal :: "Proposal \<Rightarrow> bool" where
  "validateProposal proposal = (title proposal \<noteq> [] \<and> description proposal \<noteq> [])"

text \<open>\<open>createProposal\<close> returns the proposal id, 0 for failure. It does not call \<open>validateProposal\<close>.\<close>

definition createProposal :: "PublicAddress \<Rightarrow> string \<Rightarrow> string \<Rightarrow> Timestamp
    \<Rightarrow> UCICDaoContract \<Rightarrow> uint32 \<times> UCICDaoContract" where
  "createProposal prop ttl descr now d =
     (if \<not> isContributor d prop then (0, d)
      else
        let proposal = \<lparr>Proposal.proposalId = nextProposalId d, proposer = prop, title = ttl, description = descr,
                        status = PENDING, votesFor = 0, votesAgainst = 0, votesAbstain = 0,
                        createdAt = now,
                        votingDeadline = now + PROPOSAL_VOTING_PERIOD_HOURS * 3600,
                        executionTime = 0\<rparr>;
            d1 = d\<lparr>nextProposalId := nextProposalId d + 1,
                   proposals := (proposals d)(Proposal.proposalId proposal \<mapsto> proposal)\<rparr>;
            txHash = ''proposal_'' @ to_string32 (Proposal.proposalId proposal)
        in (Proposal.proposalId proposal, recordGovernanceAction ''create_proposal'' prop txHash d1))"

definition getTierVotingPower :: "ContributorTier \<Rightarrow> uint8" where
  "getTierVotingPower t = VOTING_POWER ! tier_index t"

definition getVotingPower :: "UCICDaoContract \<Rightarrow> PublicAddress \<Rightarrow> uint64" where
  "getVotingPower d addr = ucast (getTierVotingPower (getTier d addr))"

definition castVote :: "uint32 \<Rightarrow> PublicAddress \<Rightarrow> VoteType \<Rightarrow> Timestamp
    \<Rightarrow> UCICDaoContract \<Rightarrow> bool \<times> UCICDaoContract" where
  "castVote pid vtr vtype now d =
     (case proposals d pid of
        None \<Rightarrow> (False, d)
      | Some p \<Rightarrow>
          if \<not> isContributor d vtr then (False, d)
          else if votes d (pid, vtr) \<noteq> None then (False, d)
          else
            let power = getVotingPower d vtr;
                vote = \<lparr>proposalId = pid, voter = vtr, voteType = vtype, votingPower = power,
                        votedAt = now\<rparr>;
                p' = (if vtype = FOR then p\<lparr>votesFor := votesFor p + power\<rparr>
                      else if vtype = AGAINST then p\<lparr>votesAgainst := votesAgainst p + power\<rparr>
                      else p\<lparr>votesAbstain := votesAbstain p + power\<rparr>)
            in (True, d\<lparr>votes := (votes d)((pid, vtr) \<mapsto> vote),
                        proposals := (proposals d)(pid \<mapsto> p')\<rparr>))"

definition executeProposal :: "uint32 \<Rightarrow> Timestamp \<Rightarrow> UCICDaoContract \<Rightarrow> bool \<times> UCICDaoContract" where
  "executeProposal pid now d =
     (case proposals d pid of
        None \<Rightarrow> (False, d)
      | Some p \<Rightarrow>
          if status p \<noteq> PASSED then (False, d)
          else
            let p' = p\<lparr>status := EXECUTED, executionTime := now\<rparr>;
                txHash = ''execute_'' @ to_string32 pid
            in (True, recordGovernanceAction ''execute_proposal'' (proposer p') txHash
                        (d\<lparr>proposals := (proposals d)(pid \<mapsto> p')\<rparr>)))"

definition getProposal :: "UCICDaoContract \<Rightarrow> uint32 \<Rightarrow> Proposal" where
  "getProposal d pid = (case proposals d pid of Some p \<Rightarrow> p | None \<Rightarrow> Proposal_default)"

definition hasVoted :: "UCICDaoContract \<Rightarrow> uint32 \<Rightarrow> PublicAddress \<Rightarrow> bool" where
  "hasVoted d pid vtr = (votes d (pid, vtr) \<noteq> None)"

definition applyModuleBonus :: "PublicAddress \<Rightarrow> uint32 \<Rightarrow> uint32 \<Rightarrow> UCICDaoContract
    \<Rightarrow> bool \<times> UCICDaoContract" where
  "applyModuleBonus contributor moduleId bonusPoints d =
     (if map_of (contributors d) contributor = None then (False, d)
      else
        let d1 = contrib_update contributor
                   (\<lambda>c. c\<lparr>compositeScore := compositeScore c + bonusPoints,
                           pointsEarned := pointsEarned c + ucast bonusPoints\<rparr>) d
        in (True, updateTier contributor d1))"

text \<open>\<open>calculateRewardAmount\<close>, the private helper with the formula of \<open>getPendingReward\<close>.\<close>

definition calculateRewardAmount :: "ContributorTier \<Rightarrow> uint64" where
  "calculateRewardAmount t =
     (let percentage = REWARD_DISTRIBUTION ! tier_index t;
          monthlyPool = UC_TO_UNITS MONTHLY_REWARD_POOL
      in (monthlyPool * ucast percentage) div 100)"

subsection \<open>Sequences of registry and ledger operations\<close>

text \<open>
  The registry and the ledger it points to form one state. A step is a call of a mutating
  operation of the registry, or of the ledger directly.
\<close>

datatype registry_op =
    RegisterContributor PublicAddress PublicAddress Timestamp
  | SubmitCompositeScore PublicAddress "CategoryScore list" Timestamp
  | DistributeMonthlyRewards Timestamp Timestamp
  | ClaimRewards PublicAddress Timestamp
  | CreateProposal PublicAddress string string Timestamp
  | CastVote uint32 PublicAddress VoteType Timestamp
  | ExecuteProposal uint32 Timestamp
  | ApplyModuleBonus PublicAddress uint32 uint32
  | Ledger ledger_op

fun registry_call :: "registry_op \<Rightarrow> UCICDaoContract \<times> UCTokenContract
    \<Rightarrow> UCICDaoContract \<times> UCTokenContract" where
  "registry_call (RegisterContributor a r now) (d, t) = (snd (registerContributor a r now d), t)"
| "registry_call (SubmitCompositeScore c scs now) (d, t) = (snd (submitCompositeScore c scs now d), t)"
| "registry_call (DistributeMonthlyRewards ts now) (d, t) = snd (distributeMonthlyRewards ts now d t)"
| "registry_call (ClaimRewards c now) (d, t) = (snd (claimRewards c now d), t)"
| "registry_call (CreateProposal p ttl descr now) (d, t) = (snd (createProposal p ttl descr now d), t)"
| "registry_call (CastVote pid v vt now) (d, t) = (snd (castVote pid v vt now d), t)"
| "registry_call (ExecuteProposal pid now) (d, t) = (snd (executeProposal pid now d), t)"
| "registry_call (ApplyModuleBonus c m b) (d, t) = (snd (applyModuleBonus c m b d), t)"
| "registry_call (Ledger op) (d, t) = (d, snd (ledger_call op t))"

fun registry_run :: "registry_op list \<Rightarrow> UCICDaoContract \<times> UCTokenContract
    \<Rightarrow> UCICDaoContract \<times> UCTokenContract" where
  "registry_run [] st = st"
| "registry_run (op # ops) st = registry_run ops (registry_call op st)"

text \<open>Repeated calls of \<open>claimRewards\<close> by one contributor, one per clock value.\<close>

fun claim_times :: "PublicAddress \<Rightarrow> Timestamp list \<Rightarrow> registry_op list" where
  "claim_times c [] = []"
| "claim_times c (now # nows) = ClaimRewards c now # claim_times c nows"

subsection \<open>The tier rule in the specification's words\<close>

text \<open>
  The specification's rule: the tier whose threshold (Recognized 0, Silver 100, Gold 250,
  Platinum 500) is the highest one not exceeding a number of points.
\<close>

definition spec_tier_of_points :: "nat \<Rightarrow> ContributorTier" where
  "spec_tier_of_points pts =
     last (filter (\<lambda>t. unat (getTierThreshold t) \<le> pts) [RECOGNIZED, SILVER, GOLD, PLATINUM])"

text \<open>The invariant of the registry: every contributor's tier is that of its composite score.\<close>

definition tier_inv :: "UCICDaoContract \<Rightarrow> bool" where
  "tier_inv d =
     (\<forall>k c. map_of (contributors d) k = Some c
        \<longrightarrow> tier c = spec_tier_of_points (unat (compositeScore c)))"

section \<open>The verification oracle (OracleContract)\<close>

unbundle bit_operations_syntax

text \<open>
  \<open>Hash256\<close> and \<open>GitHash\<close> are \<open>std::array<uint8, 32>\<close> and \<open>std::array<uint8, 20>\<close>: lists
  of bytes, of these lengths in every value the operations build.
\<close>

type_synonym Hash256 = "uint8 list"
type_synonym GitHash = "uint8 list"

record OracleSubmission =
  submitter :: PublicAddress
  targetContributor :: PublicAddress
  scores :: "CategoryScore list"
  gitSHA1 :: GitHash
  dataHash :: Hash256
  verificationLevel :: VerificationLevel
  verifierCount :: uint8
  submittedAt :: Timestamp
  verificationChain :: "TransactionHash list"

text \<open>\<open>OracleSubmission()\<close>.\<close>

definition OracleSubmission_default :: OracleSubmission where
  "OracleSubmission_default =
     \<lparr>submitter = [], targetContributor = [], scores = [], gitSHA1 = replicate 20 0,
      dataHash = replicate 32 0, verificationLevel = UNVERIFIED, verifierCount = 0,
      submittedAt = 0, verificationChain = []\<rparr>"

text \<open>The field \<open>notes\<close> is \<open>verifierNotes\<close> here (\<open>notes\<close> is a keyword).\<close>

record VerificationRecord =
  verifier :: PublicAddress
  approved :: bool
  verifierNotes :: string
  verifiedAt :: Timestamp

text \<open>
  The contract's fields. The \<open>daoContract\<close> pointer is not a field: \<open>registerWithDao\<close>, the one
  operation that follows it, takes the registry as an argument and returns it.
\<close>

record OracleContract =
  submissions :: "TransactionHash \<rightharpoonup> OracleSubmission"
  verificationChains :: "TransactionHash \<rightharpoonup> VerificationRecord list"
  gitRepositories :: "PublicAddress \<rightharpoonup> string"
  merkleRoots :: "TransactionHash \<rightharpoonup> Hash256"
  verifiers :: "PublicAddress set"
  auditLog :: "TransactionHash list"
  challenges :: "TransactionHash \<rightharpoonup> bool"
  totalVerifications :: uint64
  acceptedVerifications :: uint64

definition OracleContract_init :: OracleContract where
  "OracleContract_init =
     \<lparr>submissions = Map.empty, verificationChains = Map.empty, gitRepositories = Map.empty,
      merkleRoots = Map.empty, verifiers = {}, auditLog = [], challenges = Map.empty,
      totalVerifications = 0, acceptedVerifications = 0\<rparr>"

definition isValidScore :: "uint8 \<Rightarrow> bool" where
  "isValidScore sc = (sc \<ge> 0 \<and> sc \<le> MAX_CATEGORY_SCORE)"

definition validateScores :: "uint8 \<Rightarrow> uint8 \<Rightarrow> uint8 \<Rightarrow> uint8 \<Rightarrow> uint8 \<Rightarrow> bool" where
  "validateScores cq doc test innov comm =
     (isValidScore cq \<and> isValidScore doc \<and> isValidScore test \<and> isValidScore innov \<and> isValidScore comm)"

definition recordAction :: "string \<Rightarrow> PublicAddress \<Rightarrow> TransactionHash \<Rightarrow> Timestamp
    \<Rightarrow> OracleContract \<Rightarrow> TransactionHash \<times> OracleContract" where
  "recordAction action actor submissionId now oc =
     (let actionHash = action @ ''_'' @ actor @ ''_'' @ to_string_time now
      in (actionHash, oc\<lparr>auditLog := auditLog oc @ [actionHash]\<rparr>))"

text \<open>
  \<open>computeMerkleTree\<close>: the scores are folded into the 32 bytes by XOR at position
  \<open>pos % 32\<close>, then the first 20 bytes are XORed with the commit hash.
\<close>

definition computeMerkleTree :: "OracleSubmission \<Rightarrow> Hash256" where
  "computeMerkleTree submission =
     (let r1 = fst (foldl (\<lambda>(result, pos) sc.
                       (result[pos mod 32 := (result ! (pos mod 32)) XOR score sc], pos + 1))
                     (replicate 32 0, 0::nat) (scores submission))
      in foldl (\<lambda>result i. result[i := (result ! i) XOR (gitSHA1 submission ! i)]) r1 [0..<20])"

definition createMerkleProof :: "OracleContract \<Rightarrow> TransactionHash \<Rightarrow> Hash256" where
  "createMerkleProof oc submissionId =
     (case submissions oc submissionId of
        None \<Rightarrow> replicate 32 0
      | Some sub \<Rightarrow> computeMerkleTree sub)"

text \<open>\<open>submitScore\<close> returns the submission id, the empty string for failure.\<close>

definition submitScore :: "PublicAddress \<Rightarrow> uint8 \<Rightarrow> uint8 \<Rightarrow> uint8 \<Rightarrow> uint8 \<Rightarrow> uint8 \<Rightarrow> string \<Rightarrow> Hash256
    \<Rightarrow> Timestamp \<Rightarrow> OracleContract \<Rightarrow> TransactionHash \<times> OracleContract" where
  "submitScore contributor codeQuality documentation testing innovation community gitRepository
       evidenceHash now oc =
     (if \<not> validateScores codeQuality documentation testing innovation community then ([], oc)
      else
        let submission =
              \<lparr>submitter = contributor, targetContributor = contributor,
               scores =
                 [\<lparr>category = CODE_QUALITY, score = codeQuality,
                   evidence = ''Code Quality Review'', submittedAt = now\<rparr>,
                  \<lparr>category = DOCUMENTATION, score = documentation,
                   evidence = ''Documentation Review'', submittedAt = now\<rparr>,
                  \<lparr>category = TESTING, score = testing,
                   evidence = ''Testing Coverage'', submittedAt = now\<rparr>,
                  \<lparr>category = INNOVATION, score = innovation,
                   evidence = ''Innovation Assessment'', submittedAt = now\<rparr>,
                  \<lparr>category = COMMUNITY_IMPACT, score = community,
                   evidence = ''Community Impact'', submittedAt = now\<rparr>],
               gitSHA1 = replicate 20 0, dataHash = evidenceHash,
               verificationLevel = UNVERIFIED, verifierCount = 0,
               submittedAt = now, verificationChain = []\<rparr>;
            submissionId = ''sub_'' @ contributor @ ''_'' @ to_string now;
            o1 = oc\<lparr>submissions := (submissions oc)(submissionId \<mapsto> submission)\<rparr>;
            o2 = o1\<lparr>merkleRoots := (merkleRoots o1)(submissionId \<mapsto> createMerkleProof o1 submissionId)\<rparr>;
            o3 = (if gitRepository \<noteq> []
                  then o2\<lparr>gitRepositories := (gitRepositories o2)(contributor \<mapsto> gitRepository)\<rparr>
                  else o2)
        in (submissionId, snd (recordAction ''submit_score'' contributor submissionId now o3)))"

definition isVerifier :: "OracleContract \<Rightarrow> PublicAddress \<Rightarrow> bool" where
  "isVerifier oc addr = (addr \<in> verifiers oc)"

text \<open>
  The block "update verification level based on verifier count" of \<open>verifySubmission\<close>,
  on the count after the increment. When that count is 0 neither branch runs and the level
  stays.
\<close>

definition updated_level :: "uint8 \<Rightarrow> bool \<Rightarrow> VerificationLevel \<Rightarrow> VerificationLevel" where
  "updated_level count appr old =
     (if count \<ge> 3 then (if appr then AUDIT_COMPLETE else BASIC)
      else if count \<ge> 1 then (if appr then ADVANCED else BASIC)
      else old)"

text \<open>\<open>verifySubmission\<close>. \<open>verifierCount\<close> is a \<open>uint8\<close>: \<open>verifierCount++\<close> wraps from 255 to 0.\<close>

definition verifySubmission :: "TransactionHash \<Rightarrow> PublicAddress \<Rightarrow> bool \<Rightarrow> string \<Rightarrow> Timestamp
    \<Rightarrow> OracleContract \<Rightarrow> bool \<times> OracleContract" where
  "verifySubmission submissionId vrf appr nts now oc =
     (case submissions oc submissionId of
        None \<Rightarrow> (False, oc)
      | Some submission \<Rightarrow>
          if \<not> isVerifier oc vrf then (False, oc)
          else
            let vrec = \<lparr>verifier = vrf, approved = appr, verifierNotes = nts, verifiedAt = now\<rparr>;
                chain = (case verificationChains oc submissionId of Some l \<Rightarrow> l | None \<Rightarrow> []);
                count = verifierCount submission + 1;
                level = updated_level count appr (verificationLevel submission);
                o1 = oc\<lparr>verificationChains := (verificationChains oc)(submissionId \<mapsto> chain @ [vrec]),
                       submissions := (submissions oc)(submissionId \<mapsto>
                          submission\<lparr>verifierCount := count, verificationLevel := level\<rparr>),
                       acceptedVerifications :=
                          (if appr then acceptedVerifications oc + 1 else acceptedVerifications oc),
                       totalVerifications := totalVerifications oc + 1\<rparr>
            in (True, snd (recordAction ''verify_submission'' vrf submissionId now o1)))"

definition getSubmission :: "OracleContract \<Rightarrow> TransactionHash \<Rightarrow> OracleSubmission" where
  "getSubmission oc submissionId =
     (case submissions oc submissionId of Some sub \<Rightarrow> sub | None \<Rightarrow> OracleSubmission_default)"

definition getVerificationStatus :: "OracleContract \<Rightarrow> TransactionHash \<Rightarrow> VerificationLevel" where
  "getVerificationStatus oc submissionId =
     (case submissions oc submissionId of Some sub \<Rightarrow> verificationLevel sub | None \<Rightarrow> UNVERIFIED)"

definition getVerificationChain :: "OracleContract \<Rightarrow> TransactionHash \<Rightarrow> VerificationRecord list" where
  "getVerificationChain oc submissionId =
     (case verificationChains oc submissionId of Some l \<Rightarrow> l | None \<Rightarrow> [])"

definition linkGitRepository :: "PublicAddress \<Rightarrow> string \<Rightarrow> GitHash \<Rightarrow> OracleContract
    \<Rightarrow> bool \<times> OracleContract" where
  "linkGitRepository contributor repoUrl commitSha oc =
     (True, oc\<lparr>gitRepositories := (gitRepositories oc)(contributor \<mapsto> repoUrl)\<rparr>)"

definition registerVerifier :: "PublicAddress \<Rightarrow> OracleContract \<Rightarrow> bool \<times> OracleContract" where
  "registerVerifier addr oc =
     (if addr \<in> verifiers oc then (False, oc) else (True, oc\<lparr>verifiers := insert addr (verifiers oc)\<rparr>))"

definition removeVerifier :: "PublicAddress \<Rightarrow> OracleContract \<Rightarrow> bool \<times> OracleContract" where
  "removeVerifier addr oc =
     (if addr \<in> verifiers oc then (True, oc\<lparr>verifiers := verifiers oc - {addr}\<rparr>) else (False, oc))"

text \<open>\<open>challengeVerification\<close> returns the challenge id, the empty string for failure.\<close>

definition challengeVerification :: "TransactionHash \<Rightarrow> PublicAddress \<Rightarrow> string \<Rightarrow> Timestamp
    \<Rightarrow> OracleContract \<Rightarrow> TransactionHash \<times> OracleContract" where
  "challengeVerification submissionId challenger reason now oc =
     (if submissions oc submissionId = None then ([], oc)
      else
        let challengeId = ''challenge_'' @ submissionId @ ''_'' @ to_string_time now;
            o1 = oc\<lparr>challenges := (challenges oc)(challengeId \<mapsto> False)\<rparr>
        in (challengeId, snd (recordAction ''challenge_verification'' challenger submissionId now o1)))"

definition resolveChallenge :: "TransactionHash \<Rightarrow> bool \<Rightarrow> OracleContract \<Rightarrow> bool \<times> OracleContract" where
  "resolveChallenge challengeId accepted oc =
     (if challenges oc challengeId = None then (False, oc)
      else (True, oc\<lparr>challenges := (challenges oc)(challengeId \<mapsto> True)\<rparr>))"

text \<open>
  \<open>registerWithDao\<close> changes the registry only; the comparison of the enumeration
  \<open>VerificationLevel\<close> is that of the enumerators' values.
\<close>

definition registerWithDao :: "TransactionHash \<Rightarrow> Timestamp \<Rightarrow> OracleContract \<Rightarrow> UCICDaoContract
    \<Rightarrow> bool \<times> UCICDaoContract" where
  "registerWithDao submissionId now oc d =
     (case submissions oc submissionId of
        None \<Rightarrow> (False, d)
      | Some sub \<Rightarrow>
          if level_index (verificationLevel sub) < level_index ADVANCED then (False, d)
          else submitCompositeScore (targetContributor sub) (scores sub) now d)"

definition isRegisteredWithDao :: "OracleContract \<Rightarrow> TransactionHash \<Rightarrow> bool" where
  "isRegisteredWithDao oc submissionId =
     (case submissions oc submissionId of
        Some sub \<Rightarrow> level_index (verificationLevel sub) \<ge> level_index ADVANCED
      | None \<Rightarrow> False)"

subsection \<open>Sequences of verifications of one submission\<close>

text \<open>A call of \<open>verifySubmission\<close> on a fixed submission: verifier, decision, notes, clock.\<close>

type_synonym verify_call = "PublicAddress \<times> bool \<times> string \<times> Timestamp"

fun verify_run :: "TransactionHash \<Rightarrow> verify_call list \<Rightarrow> OracleContract \<Rightarrow> OracleContract" where
  "verify_run sid [] oc = oc"
| "verify_run sid ((v, a, n, now) # cs) oc = verify_run sid cs (snd (verifySubmission sid v a n now oc))"

text \<open>The calls of a sequence that \<open>verifySubmission\<close> accepts, and the record each appends.\<close>

definition accepted_calls :: "OracleContract \<Rightarrow> verify_call list \<Rightarrow> verify_call list" where
  "accepted_calls oc cs = filter (\<lambda>c. isVerifier oc (fst c)) cs"

definition call_record :: "verify_call \<Rightarrow> VerificationRecord" where
  "call_record c = \<lparr>verifier = fst c, approved = fst (snd c), verifierNotes = fst (snd (snd c)),
                    verifiedAt = snd (snd (snd c))\<rparr>"

text \<open>
  The level that the \<open>n\<close>-th accepted verification sets while the count has not wrapped
  (\<open>1 \<le> n \<le> 255\<close>).
\<close>

definition quorum_level :: "nat \<Rightarrow> bool \<Rightarrow> VerificationLevel" where
  "quorum_level n appr = (if appr then (if 3 \<le> n then AUDIT_COMPLETE else ADVANCED) else BASIC)"

section \<open>Scenarios\<close>

text \<open>
  States built by the operations themselves, as the repository's tests build them
  (\<open>tests/test_contracts.cpp\<close>); the clock values are arbitrary.
\<close>

text \<open>Five category scores of 60 each.\<close>

definition scores_all_60 :: "CategoryScore list" where
  "scores_all_60 =
     [\<lparr>category = CODE_QUALITY, score = 60, evidence = [], submittedAt = 0\<rparr>,
      \<lparr>category = DOCUMENTATION, score = 60, evidence = [], submittedAt = 0\<rparr>,
      \<lparr>category = TESTING, score = 60, evidence = [], submittedAt = 0\<rparr>,
      \<lparr>category = INNOVATION, score = 60, evidence = [], submittedAt = 0\<rparr>,
      \<lparr>category = COMMUNITY_IMPACT, score = 60, evidence = [], submittedAt = 0\<rparr>]"

text \<open>A contributor registered and scored twice.\<close>

definition registry_two_scores :: UCICDaoContract where
  "registry_two_scores =
     fst (registry_run
       [RegisterContributor ''bob'' [] 0, SubmitCompositeScore ''bob'' scores_all_60 1,
        SubmitCompositeScore ''bob'' scores_all_60 2]
       (UCICDaoContract_init, UCTokenContract_init 0))"

text \<open>A contributor with the four module bonuses (50, 75, 100 and 50 points), not yet scored.\<close>

definition registry_bonuses :: UCICDaoContract where
  "registry_bonuses =
     fst (registry_run
       [RegisterContributor ''bob'' [] 0, ApplyModuleBonus ''bob'' 1 50,
        ApplyModuleBonus ''bob'' 2 75, ApplyModuleBonus ''bob'' 3 100,
        ApplyModuleBonus ''bob'' 4 50]
       (UCICDaoContract_init, UCTokenContract_init 0))"

text \<open>Four contributors, one in each tier that scores and bonuses reach, and the fresh ledger.\<close>

definition registry_four_tiers :: "UCICDaoContract \<times> UCTokenContract" where
  "registry_four_tiers =
     registry_run
       [RegisterContributor ''alice'' [] 0, RegisterContributor ''bob'' [] 0,
        RegisterContributor ''carol'' [] 0, RegisterContributor ''dave'' [] 0,
        ApplyModuleBonus ''bob'' 3 100, ApplyModuleBonus ''carol'' 3 250,
        ApplyModuleBonus ''dave'' 3 500]
       (UCICDaoContract_init, UCTokenContract_init 0)"

text \<open>A registry with the one contributor \<open>bob\<close>.\<close>

definition dao_bob :: UCICDaoContract where
  "dao_bob = snd (registerContributor ''bob'' [] 0 UCICDaoContract_init)"

text \<open>A registry with a voter, a proposer and the proposal 1.\<close>

definition dao_voting :: UCICDaoContract where
  "dao_voting =
     snd (createProposal ''proposer_2'' ''Vote Test'' ''Test voting'' 2
       (snd (registerContributor ''proposer_2'' [] 1
         (snd (registerContributor ''voter_1'' [] 0 UCICDaoContract_init)))))"

text \<open>An oracle with the verifier \<open>v\<close> and one submission, of id \<open>sub_bob_0\<close>.\<close>

definition oracle_submitted :: OracleContract where
  "oracle_submitted =
     snd (submitScore ''bob'' 85 90 80 95 75 ''https://github.com/test/repo'' (replicate 32 0) 0
            (snd (registerVerifier ''v'' OracleContract_init)))"

text \<open>The same after one approving verification.\<close>

definition oracle_advanced :: OracleContract where
  "oracle_advanced = snd (verifySubmission ''sub_bob_0'' ''v'' True ''Looks good'' 1 oracle_submitted)"

section \<open>Facts about the ledger\<close>

subsection \<open>The ordered map\<close>

lemma map_of_map_insert: "map_of (map_insert k v xs) = (map_of xs)(k \<mapsto> v)"
  by (induction xs) (auto simp: fun_eq_iff)

lemma keys_map_insert: "fst ` set (map_insert k v xs) = insert k (fst ` set xs)"
  using arg_cong [OF map_of_map_insert [of k v xs], of dom]
  by (simp add: dom_map_of_conv_image_fst)

lemma keys_ordered_map_insert:
  "keys_ordered xs \<Longrightarrow> keys_ordered (map_insert k v xs)"
  unfolding keys_ordered_def
proof (induction xs)
  case Nil
  then show ?case by simp
next
  case (Cons p xs)
  obtain k' v' where p: "p = (k', v')" by (cases p)
  from Cons.prems have tl: "sorted_wrt (<) (map fst xs)" and hd: "\<forall>y\<in>fst ` set xs. k' < y"
    by (auto simp: p)
  show ?case
  proof (cases "k = k'")
    case True
    with Cons.prems show ?thesis by (simp add: p)
  next
    case False
    show ?thesis
    proof (cases "k < k'")
      case True
      with Cons.prems show ?thesis by (auto simp: p)
    next
      case False
      with \<open>k \<noteq> k'\<close> have "k' < k" by simp
      with Cons.IH [OF tl] hd \<open>k \<noteq> k'\<close> False show ?thesis
        by (auto simp: p keys_map_insert)
    qed
  qed
qed

lemma keys_ordered_less_None:
  "keys_ordered ((k', v') # xs) \<Longrightarrow> k < k' \<Longrightarrow> map_of ((k', v') # xs) k = None"
  by (force simp: keys_ordered_def map_of_eq_None_iff)

lemma foldl_add_balance:
  "foldl (\<lambda>acc p. acc + balance (snd p)) a m = a + sum_list (map (\<lambda>p. balance (snd p)) m)"
  by (induction m arbitrary: a) (simp_all add: add.assoc)

lemma sum_balances_Nil [simp]: "sum_balances [] = 0"
  by (simp add: sum_balances_def)

lemma sum_balances_Cons [simp]: "sum_balances (p # m) = balance (snd p) + sum_balances m"
  by (simp add: sum_balances_def foldl_add_balance)

lemma sum_balances_map_insert:
  "keys_ordered xs \<Longrightarrow>
   sum_balances (map_insert k v xs)
     = sum_balances xs + balance v - (case map_of xs k of Some a \<Rightarrow> balance a | None \<Rightarrow> 0)"
proof (induction xs)
  case Nil
  then show ?case by simp
next
  case (Cons p xs)
  obtain k' v' where p: "p = (k', v')" by (cases p)
  from Cons.prems have tl: "keys_ordered xs" by (simp add: keys_ordered_def)
  show ?case
  proof (cases "k = k'")
    case True
    then show ?thesis by (simp add: p)
  next
    case False
    show ?thesis
    proof (cases "k < k'")
      case True
      with Cons.prems have "map_of ((k', v') # xs) k = None"
        unfolding p by (rule keys_ordered_less_None)
      with True False show ?thesis by (simp add: p)
    next
      case False
      with \<open>k \<noteq> k'\<close> Cons.IH [OF tl] show ?thesis by (simp add: p)
    qed
  qed
qed

subsection \<open>Accounts and their balances\<close>

lemma balance_Account_default [simp]: "balance Account_default = 0"
  by (simp add: Account_default_def)

lemma acc_at_acc_modify:
  "acc_at (acc_modify k f m) k' = (if k' = k then f (acc_at m k) else acc_at m k')"
  by (simp add: acc_at_def acc_modify_def map_of_map_insert)

lemma map_of_acc_modify:
  "map_of (acc_modify k f m) = (map_of m)(k \<mapsto> f (acc_at m k))"
  by (simp add: acc_modify_def map_of_map_insert)

lemma keys_ordered_acc_modify: "keys_ordered m \<Longrightarrow> keys_ordered (acc_modify k f m)"
  by (simp add: acc_modify_def keys_ordered_map_insert)

lemma sum_balances_acc_modify:
  "keys_ordered m \<Longrightarrow>
   sum_balances (acc_modify k f m) = sum_balances m + balance (f (acc_at m k)) - balance (acc_at m k)"
  by (simp add: acc_modify_def sum_balances_map_insert acc_at_def split: option.splits)

lemma keys_ordered_ensure_account: "keys_ordered m \<Longrightarrow> keys_ordered (ensure_account r now m)"
  by (simp add: ensure_account_def keys_ordered_map_insert)

lemma sum_balances_ensure_account:
  "keys_ordered m \<Longrightarrow> sum_balances (ensure_account r now m) = sum_balances m"
  by (simp add: ensure_account_def sum_balances_map_insert Account_new_def)

lemma balance_acc_at_ensure_account:
  "balance (acc_at (ensure_account r now m) k) = balance (acc_at m k)"
  by (simp add: ensure_account_def acc_at_def map_of_map_insert Account_new_def)

subsection \<open>Every operation keeps the invariant\<close>

lemmas ledger_simps =
  keys_ordered_acc_modify keys_ordered_ensure_account keys_ordered_map_insert
  sum_balances_acc_modify sum_balances_ensure_account sum_balances_map_insert
  acc_at_acc_modify balance_acc_at_ensure_account
  recordTransaction_def verifyIntegrity_def ledger_inv_def Let_def

lemma ledger_inv_transfer: "ledger_inv s \<Longrightarrow> ledger_inv (snd (transfer r a now s))"
  by (simp add: transfer_def ledger_simps)

lemma ledger_inv_transferFrom: "ledger_inv s \<Longrightarrow> ledger_inv (snd (transferFrom ow r a now s))"
  by (simp add: transferFrom_def ledger_simps)

lemma ledger_inv_approve: "ledger_inv s \<Longrightarrow> ledger_inv (snd (approve sp a s))"
  by (simp add: approve_def ledger_simps)

lemma ledger_inv_increaseAllowance: "ledger_inv s \<Longrightarrow> ledger_inv (snd (increaseAllowance sp a s))"
  by (simp add: increaseAllowance_def ledger_simps)

lemma ledger_inv_decreaseAllowance: "ledger_inv s \<Longrightarrow> ledger_inv (snd (decreaseAllowance sp a s))"
  by (simp add: decreaseAllowance_def ledger_simps)

lemma ledger_inv_mint: "ledger_inv s \<Longrightarrow> ledger_inv (snd (mint acc a now s))"
  by (simp add: mint_def ledger_simps)

lemma ledger_inv_burn: "ledger_inv s \<Longrightarrow> ledger_inv (snd (burn acc a s))"
  by (simp add: burn_def ledger_simps)

lemma ledger_inv_distributeReward: "ledger_inv s \<Longrightarrow> ledger_inv (snd (distributeReward r a now s))"
  by (simp add: distributeReward_def ledger_simps)

lemma ledger_inv_treasuryWithdraw: "ledger_inv s \<Longrightarrow> ledger_inv (snd (treasuryWithdraw r a now s))"
  by (simp add: treasuryWithdraw_def ledger_simps)

lemma ledger_inv_treasuryDeposit: "ledger_inv s \<Longrightarrow> ledger_inv (snd (treasuryDeposit c a s))"
  by (simp add: treasuryDeposit_def ledger_simps)

lemma ledger_inv_registerAccount: "ledger_inv s \<Longrightarrow> ledger_inv (snd (registerAccount acc now s))"
  by (simp add: registerAccount_def ledger_simps Account_new_def)

subsection \<open>Conservation (C1)\<close>

lemma ledger_inv_call: "ledger_inv s \<Longrightarrow> ledger_inv (snd (ledger_call op s))"
  by (cases op)
    (simp_all add: ledger_inv_transfer ledger_inv_transferFrom ledger_inv_approve
      ledger_inv_increaseAllowance ledger_inv_decreaseAllowance ledger_inv_mint ledger_inv_burn
      ledger_inv_distributeReward ledger_inv_treasuryWithdraw ledger_inv_treasuryDeposit
      ledger_inv_registerAccount)

lemma ledger_inv_init: "ledger_inv (UCTokenContract_init now)"
  by (simp add: ledger_inv_def UCTokenContract_init_def keys_ordered_def verifyIntegrity_def
      Account_new_def)

lemma ledger_inv_states: "ledger_inv s \<Longrightarrow> list_all ledger_inv (ledger_states ops s)"
  by (induction ops arbitrary: s) (simp_all add: ledger_inv_call)

lemma ledger_inv_run: "ledger_inv s \<Longrightarrow> ledger_inv (ledger_run ops s)"
  by (induction ops arbitrary: s) (simp_all add: ledger_inv_call)

text \<open>
  C1. Starting from the freshly constructed contract, after every operation of every finite
  sequence of the eleven mutating ledger operations, \<open>verifyIntegrity\<close> returns true: the
  balances of all accounts, added as unsigned 64-bit values (wrapping modulo \<open>2^64\<close>), equal
  \<open>totalSupply\<close>. \<open>ledger_states\<close> lists the state after each operation.
\<close>

theorem ledger_conservation:
  "list_all verifyIntegrity (ledger_states ops (UCTokenContract_init now))"
  using ledger_inv_states [OF ledger_inv_init, of ops now]
  by (simp add: list_all_iff ledger_inv_def)

theorem ledger_conservation_witness:
  "list_all verifyIntegrity
     (ledger_states
        [Transfer ''alice'' 10000000000 5, Mint ''bob'' 7 6, Burn ''alice'' 3,
         DistributeReward ''carol'' 100000000000 7, TreasuryDeposit ''alice'' 10]
        (UCTokenContract_init 0))"
  by (rule ledger_conservation)

subsection \<open>Underflow of the treasury account (C2)\<close>

text \<open>
  C2. The claim: an operation that would take a balance below zero returns false and leaves
  the ledger unchanged. \<open>transfer\<close> debits the treasury account but not \<open>treasuryBalance\<close>,
  and \<open>distributeReward\<close> and \<open>treasuryWithdraw\<close> compare the amount with \<open>treasuryBalance\<close>
  only. On the fresh contract, after \<open>transfer("alice", 1000 UC)\<close> the treasury account holds
  0; \<open>distributeReward("bob", 1)\<close> and \<open>treasuryWithdraw("bob", 1)\<close> then both return true
  and leave the treasury account at \<open>2^64 - 1\<close>.
\<close>

theorem distributeReward_after_drain:
  "fst (transfer ''alice'' (UC_TO_UNITS 1000) 0 (UCTokenContract_init 0))
   \<and> balanceOf (snd (transfer ''alice'' (UC_TO_UNITS 1000) 0 (UCTokenContract_init 0))) ''__TREASURY__'' = 0
   \<and> fst (distributeReward ''bob'' 1 0 (snd (transfer ''alice'' (UC_TO_UNITS 1000) 0 (UCTokenContract_init 0))))
   \<and> balanceOf (snd (distributeReward ''bob'' 1 0
        (snd (transfer ''alice'' (UC_TO_UNITS 1000) 0 (UCTokenContract_init 0))))) ''__TREASURY__''
      = 18446744073709551615
   \<and> fst (treasuryWithdraw ''bob'' 1 0 (snd (transfer ''alice'' (UC_TO_UNITS 1000) 0 (UCTokenContract_init 0))))
   \<and> balanceOf (snd (treasuryWithdraw ''bob'' 1 0
        (snd (transfer ''alice'' (UC_TO_UNITS 1000) 0 (UCTokenContract_init 0))))) ''__TREASURY__''
      = 18446744073709551615"
  by code_simp

theorem distributeReward_after_drain_witness:
  "fst (distributeReward ''bob'' 1 0 (snd (transfer ''alice'' (UC_TO_UNITS 1000) 0 (UCTokenContract_init 0))))
   \<and> snd (distributeReward ''bob'' 1 0 (snd (transfer ''alice'' (UC_TO_UNITS 1000) 0 (UCTokenContract_init 0))))
       \<noteq> snd (transfer ''alice'' (UC_TO_UNITS 1000) 0 (UCTokenContract_init 0))"
  using distributeReward_after_drain by auto

section \<open>Facts about the registry\<close>

lemma map_of_contrib_update:
  "map_of (contributors (contrib_update k f d)) =
     (case map_of (contributors d) k of
        None \<Rightarrow> map_of (contributors d)
      | Some c \<Rightarrow> (map_of (contributors d))(k \<mapsto> f c))"
  by (simp add: contrib_update_def map_of_map_insert split: option.splits)

lemma contrib_update_frame [simp]:
  "proposals (contrib_update k f d) = proposals d"
  "votes (contrib_update k f d) = votes d"
  "governanceLog (contrib_update k f d) = governanceLog d"
  "nextProposalId (contrib_update k f d) = nextProposalId d"
  "totalRewardsDistributed (contrib_update k f d) = totalRewardsDistributed d"
  "lastRewardDistribution (contrib_update k f d) = lastRewardDistribution d"
  by (simp_all add: contrib_update_def split: option.splits)

lemma recordGovernanceAction_frame [simp]:
  "contributors (recordGovernanceAction a b c d) = contributors d"
  "proposals (recordGovernanceAction a b c d) = proposals d"
  "votes (recordGovernanceAction a b c d) = votes d"
  "nextProposalId (recordGovernanceAction a b c d) = nextProposalId d"
  by (simp_all add: recordGovernanceAction_def)

lemma updateTier_frame [simp]:
  "proposals (updateTier k d) = proposals d"
  "votes (updateTier k d) = votes d"
  by (simp_all add: updateTier_def Let_def split: option.splits)

lemma dao_bob_facts:
  "map_option pointsEarned (map_of (contributors dao_bob) ''bob'') = Some 0"
  "map_option tier (map_of (contributors dao_bob) ''bob'') = Some RECOGNIZED"
  "map_option rewardsReceived (map_of (contributors dao_bob) ''bob'') = Some 0"
  by code_simp+

subsection \<open>Proposals with an empty title (C9)\<close>

text \<open>
  What \<open>createProposal\<close> does for a registered proposer, whatever the title and the
  description: it returns \<open>nextProposalId\<close>, advances it by one and stores the proposal with
  status \<open>PENDING\<close> and the deadline \<open>72 * 3600\<close> seconds after the creation time.
\<close>

lemma createProposal_registered:
  "isContributor d p \<Longrightarrow>
   fst (createProposal p ttl descr now d) = nextProposalId d
   \<and> nextProposalId (snd (createProposal p ttl descr now d)) = nextProposalId d + 1
   \<and> proposals (snd (createProposal p ttl descr now d)) (nextProposalId d) =
       Some \<lparr>Proposal.proposalId = nextProposalId d, proposer = p, title = ttl, description = descr,
             status = PENDING, votesFor = 0, votesAgainst = 0, votesAbstain = 0,
             createdAt = now, votingDeadline = now + 259200, executionTime = 0\<rparr>"
  by (simp add: createProposal_def Let_def PROPOSAL_VOTING_PERIOD_HOURS_def)

text \<open>
  C9. The claim: \<open>createProposal\<close> fails when the title or the description is empty, also
  for a registered proposer. \<open>validateProposal\<close> is defined and never called: for the
  registered contributor \<open>alice\<close>, \<open>createProposal("alice", "", "")\<close> returns the id 1 and
  stores a pending proposal that \<open>validateProposal\<close> rejects.
\<close>

theorem createProposal_empty_title_accepted:
  "isContributor (snd (registerContributor ''alice'' [] 0 UCICDaoContract_init)) ''alice''
   \<and> fst (createProposal ''alice'' [] [] 0 (snd (registerContributor ''alice'' [] 0 UCICDaoContract_init))) = 1
   \<and> title (getProposal (snd (createProposal ''alice'' [] [] 0
         (snd (registerContributor ''alice'' [] 0 UCICDaoContract_init)))) 1) = []
   \<and> status (getProposal (snd (createProposal ''alice'' [] [] 0
         (snd (registerContributor ''alice'' [] 0 UCICDaoContract_init)))) 1) = PENDING
   \<and> validateProposal (getProposal (snd (createProposal ''alice'' [] [] 0
         (snd (registerContributor ''alice'' [] 0 UCICDaoContract_init)))) 1) = False"
  by code_simp

theorem createProposal_empty_title_accepted_witness:
  "fst (createProposal ''alice'' [] [] 0 (snd (registerContributor ''alice'' [] 0 UCICDaoContract_init))) \<noteq> 0"
  using createProposal_empty_title_accepted by simp

subsection \<open>claimRewards moves no tokens (C10)\<close>

lemma calculateRewardAmount_values:
  "calculateRewardAmount RECOGNIZED = 600000000"
  "calculateRewardAmount SILVER = 600000000"
  "calculateRewardAmount GOLD = 900000000"
  "calculateRewardAmount PLATINUM = 1200000000"
  "calculateRewardAmount FOUNDER = 3000000000"
  by (simp_all add: calculateRewardAmount_def REWARD_DISTRIBUTION_def UC_TO_UNITS_def
      MONTHLY_REWARD_POOL_def UC_UNIT_def)

lemma calculateRewardAmount_pos: "0 < calculateRewardAmount t"
  by (cases t) (simp_all add: calculateRewardAmount_values)

lemma getPendingReward_registered:
  "map_of (contributors d) c = Some x \<Longrightarrow> getPendingReward d c = calculateRewardAmount (tier x)"
  by (simp add: getPendingReward_def calculateRewardAmount_def)

lemma claimRewards_registered:
  assumes "map_of (contributors d) c = Some x"
  shows "fst (claimRewards c now d) = calculateRewardAmount (tier x)"
    and "map_of (contributors (snd (claimRewards c now d))) =
           (map_of (contributors d))(c \<mapsto> x\<lparr>rewardsReceived := rewardsReceived x + calculateRewardAmount (tier x),
                                                lastRewardClaimAt := now\<rparr>)"
  using assms calculateRewardAmount_pos [of "tier x"]
  by (simp_all add: claimRewards_def Let_def getPendingReward_registered map_of_contrib_update)

lemma claim_times_run:
  "map_of (contributors d) c = Some x \<Longrightarrow>
   snd (registry_run (claim_times c nows) (d, t)) = t
   \<and> (\<exists>y. map_of (contributors (fst (registry_run (claim_times c nows) (d, t)))) c = Some y
          \<and> tier y = tier x
          \<and> rewardsReceived y = rewardsReceived x + of_nat (length nows) * calculateRewardAmount (tier x))"
proof (induction nows arbitrary: d x)
  case Nil
  then show ?case by simp
next
  case (Cons now nows)
  let ?x' = "x\<lparr>rewardsReceived := rewardsReceived x + calculateRewardAmount (tier x),
                lastRewardClaimAt := now\<rparr>"
  let ?d' = "snd (claimRewards c now d)"
  have step: "map_of (contributors ?d') c = Some ?x'"
    using claimRewards_registered(2) [OF Cons.prems, of now] by simp
  from Cons.IH [OF step] show ?case
    by (auto simp: algebra_simps)
qed

text \<open>
  C10. For a registered contributor, \<open>claimRewards\<close> returns the pending amount of the
  contributor's tier, which is positive, and adds it to \<open>rewardsReceived\<close>; the call leaves
  the ledger as it was. A run of \<open>n\<close> calls leaves the ledger as it was and adds \<open>n\<close> times
  the amount: no call is refused and the sum is not capped (the field is an unsigned 64-bit
  value, so the sum is taken modulo \<open>2^64\<close>).
\<close>

theorem claimRewards_moves_no_tokens:
  assumes "map_of (contributors d) c = Some x"
  shows "fst (claimRewards c now d) = getPendingReward d c
       \<and> getPendingReward d c = calculateRewardAmount (tier x)
       \<and> 0 < getPendingReward d c
       \<and> rewardsReceived (getContributor (snd (claimRewards c now d)) c)
           = rewardsReceived x + getPendingReward d c
       \<and> registry_call (ClaimRewards c now) (d, t) = (snd (claimRewards c now d), t)
       \<and> snd (registry_run (claim_times c nows) (d, t)) = t
       \<and> rewardsReceived (getContributor (fst (registry_run (claim_times c nows) (d, t))) c)
           = rewardsReceived x + of_nat (length nows) * getPendingReward d c
       \<and> unat (rewardsReceived (getContributor (fst (registry_run (claim_times c nows) (d, t))) c))
           = (unat (rewardsReceived x) + length nows * unat (getPendingReward d c)) mod 2 ^ 64"
proof -
  have p: "getPendingReward d c = calculateRewardAmount (tier x)"
    using assms by (rule getPendingReward_registered)
  obtain y where y: "map_of (contributors (fst (registry_run (claim_times c nows) (d, t)))) c = Some y"
    "rewardsReceived y = rewardsReceived x + of_nat (length nows) * calculateRewardAmount (tier x)"
    and t: "snd (registry_run (claim_times c nows) (d, t)) = t"
    using claim_times_run [OF assms, of nows t] by blast
  have u: "unat (rewardsReceived x + of_nat (length nows) * calculateRewardAmount (tier x))
     = (unat (rewardsReceived x) + length nows * unat (calculateRewardAmount (tier x))) mod 2 ^ 64"
    by (simp add: unat_word_ariths unat_of_nat mod_simps)
  show ?thesis
    using assms p y t u calculateRewardAmount_pos [of "tier x"]
      claimRewards_registered [OF assms, of now]
    by (simp add: getContributor_def)
qed

theorem claimRewards_moves_no_tokens_witness:
  "isContributor dao_bob ''bob''
   \<and> fst (claimRewards ''bob'' 5 dao_bob) = 600000000
   \<and> snd (registry_run (claim_times ''bob'' [1, 2, 3]) (dao_bob, UCTokenContract_init 0))
       = UCTokenContract_init 0
   \<and> rewardsReceived (getContributor
        (fst (registry_run (claim_times ''bob'' [1, 2, 3]) (dao_bob, UCTokenContract_init 0))) ''bob'')
       = 1800000000"
proof -
  obtain x where x: "map_of (contributors dao_bob) ''bob'' = Some x" "tier x = RECOGNIZED"
    "rewardsReceived x = 0"
    using dao_bob_facts(2,3) by (cases "map_of (contributors dao_bob) ''bob''") auto
  from claimRewards_moves_no_tokens [OF x(1), of 5 "UCTokenContract_init 0" "[1, 2, 3]"]
  show ?thesis
    using x by (simp add: isContributor_def calculateRewardAmount_values)
qed

subsection \<open>One vote per proposal and voter (C7)\<close>

lemma reward_members_dao_frame:
  "votes (fst (snd (reward_members as per ts now st))) = votes (fst (snd st))
   \<and> proposals (fst (snd (reward_members as per ts now st))) = proposals (fst (snd st))"
  by (induction as per ts now st rule: reward_members.induct) simp_all

lemma reward_tiers_dao_frame:
  "votes (fst (snd (reward_tiers trs groups pool ts now st))) = votes (fst (snd st))
   \<and> proposals (fst (snd (reward_tiers trs groups pool ts now st))) = proposals (fst (snd st))"
  by (induction trs groups pool ts now st rule: reward_tiers.induct)
    (simp_all add: Let_def reward_members_dao_frame)

lemma distributeMonthlyRewards_votes:
  "votes (fst (snd (distributeMonthlyRewards ts now d t))) = votes d"
  by (simp add: distributeMonthlyRewards_def Let_def reward_tiers_dao_frame del: reward_tiers.simps)

lemma votes_kept_call:
  "votes d k \<noteq> None \<Longrightarrow> votes (fst (registry_call op (d, t))) k \<noteq> None"
proof (cases op)
  case (DistributeMonthlyRewards ts now)
  then show "votes d k \<noteq> None \<Longrightarrow> ?thesis"
    by (simp add: distributeMonthlyRewards_votes)
qed (auto simp: registerContributor_def submitCompositeScore_def claimRewards_def
      createProposal_def castVote_def executeProposal_def applyModuleBonus_def Let_def
      split: option.splits)

lemma votes_kept_run:
  "votes (fst st) k \<noteq> None \<Longrightarrow> votes (fst (registry_run ops st)) k \<noteq> None"
proof (induction ops arbitrary: st)
  case Nil
  then show ?case by simp
next
  case (Cons op ops)
  obtain d t where st: "st = (d, t)" by (cases st)
  from Cons.prems have "votes (fst (registry_call op st)) k \<noteq> None"
    by (simp add: st votes_kept_call)
  then show ?case by (simp add: Cons.IH)
qed

lemma castVote_records_vote:
  "castVote p v T now d = (True, d1) \<Longrightarrow> votes d1 (p, v) \<noteq> None"
  by (auto simp: castVote_def Let_def split: option.splits if_splits)

lemma castVote_rejects_second:
  "votes d (p, v) \<noteq> None \<Longrightarrow> castVote p v T now d = (False, d)"
  by (simp add: castVote_def split: option.splits)

text \<open>
  C7. If \<open>castVote(p, v, T)\<close> has succeeded, then after every further sequence of
  operations of the registry and of the ledger, \<open>castVote(p, v, T')\<close> returns false for every
  vote type \<open>T'\<close> and leaves the registry as it was, so the three tallies of the proposal are
  the same after the call as before it.
\<close>

theorem castVote_unique:
  assumes "castVote p v T now d = (True, d1)"
  shows "castVote p v T' now' (fst (registry_run ops (d1, t))) = (False, fst (registry_run ops (d1, t)))
       \<and> votesFor (getProposal (snd (castVote p v T' now' (fst (registry_run ops (d1, t))))) p)
           = votesFor (getProposal (fst (registry_run ops (d1, t))) p)
       \<and> votesAgainst (getProposal (snd (castVote p v T' now' (fst (registry_run ops (d1, t))))) p)
           = votesAgainst (getProposal (fst (registry_run ops (d1, t))) p)
       \<and> votesAbstain (getProposal (snd (castVote p v T' now' (fst (registry_run ops (d1, t))))) p)
           = votesAbstain (getProposal (fst (registry_run ops (d1, t))) p)"
proof -
  have "votes d1 (p, v) \<noteq> None"
    using assms by (rule castVote_records_vote)
  then have "votes (fst (registry_run ops (d1, t))) (p, v) \<noteq> None"
    using votes_kept_run [of "(d1, t)" "(p, v)" ops] by simp
  then have "castVote p v T' now' (fst (registry_run ops (d1, t))) = (False, fst (registry_run ops (d1, t)))"
    by (rule castVote_rejects_second)
  then show ?thesis by simp
qed

lemma dao_voting_first_vote: "fst (castVote 1 ''voter_1'' FOR 5 dao_voting)"
  by code_simp

theorem castVote_unique_witness:
  "fst (castVote 1 ''voter_1'' FOR 5 dao_voting)
   \<and> castVote 1 ''voter_1'' AGAINST 6
        (fst (registry_run [ApplyModuleBonus ''voter_1'' 3 100]
           (snd (castVote 1 ''voter_1'' FOR 5 dao_voting), UCTokenContract_init 0)))
      = (False, fst (registry_run [ApplyModuleBonus ''voter_1'' 3 100]
           (snd (castVote 1 ''voter_1'' FOR 5 dao_voting), UCTokenContract_init 0)))"
proof -
  have h: "castVote 1 ''voter_1'' FOR 5 dao_voting = (True, snd (castVote 1 ''voter_1'' FOR 5 dao_voting))"
    using dao_voting_first_vote by (simp add: prod_eq_iff)
  from castVote_unique [OF h, of AGAINST 6 "[ApplyModuleBonus ''voter_1'' 3 100]" "UCTokenContract_init 0"]
  show ?thesis using dao_voting_first_vote by blast
qed

subsection \<open>The tier and the points earned (C4)\<close>

lemma spec_tier_of_points_code:
  "spec_tier_of_points (unat (s :: uint32)) =
     (if s \<ge> getTierThreshold PLATINUM then PLATINUM
      else if s \<ge> getTierThreshold GOLD then GOLD
      else if s \<ge> getTierThreshold SILVER then SILVER
      else RECOGNIZED)"
  by (simp add: spec_tier_of_points_def word_le_nat_alt)

lemma map_of_updateTier:
  "map_of (contributors (updateTier k d)) =
     (case map_of (contributors d) k of
        None \<Rightarrow> map_of (contributors d)
      | Some c \<Rightarrow> (map_of (contributors d))(k \<mapsto> c\<lparr>tier := spec_tier_of_points (unat (compositeScore c))\<rparr>))"
  by (simp add: updateTier_def Let_def map_of_contrib_update spec_tier_of_points_code
      split: option.splits)

lemma tier_inv_contrib_update:
  assumes "tier_inv d"
    and "\<And>c. tier (f c) = tier c \<and> compositeScore (f c) = compositeScore c"
  shows "tier_inv (contrib_update k f d)"
  using assms by (auto simp: tier_inv_def map_of_contrib_update split: option.splits if_splits)

lemma tier_inv_registerContributor: "tier_inv d \<Longrightarrow> tier_inv (snd (registerContributor a r now d))"
  by (auto simp: tier_inv_def registerContributor_def Let_def map_of_map_insert
      spec_tier_of_points_def split: if_splits)

lemma tier_inv_submitCompositeScore:
  "tier_inv d \<Longrightarrow> tier_inv (snd (submitCompositeScore c scs now d))"
  by (auto simp: tier_inv_def submitCompositeScore_def Let_def map_of_contrib_update
      map_of_updateTier split: option.splits if_splits)

lemma tier_inv_applyModuleBonus: "tier_inv d \<Longrightarrow> tier_inv (snd (applyModuleBonus c m b d))"
  by (auto simp: tier_inv_def applyModuleBonus_def Let_def map_of_contrib_update
      map_of_updateTier split: option.splits if_splits)

lemma tier_inv_claimRewards: "tier_inv d \<Longrightarrow> tier_inv (snd (claimRewards c now d))"
  by (simp add: claimRewards_def Let_def tier_inv_contrib_update)

lemma tier_inv_reward_members:
  "tier_inv (fst (snd st)) \<Longrightarrow> tier_inv (fst (snd (reward_members as per ts now st)))"
  by (induction as per ts now st rule: reward_members.induct)
    (simp_all add: tier_inv_contrib_update)

lemma tier_inv_reward_tiers:
  "tier_inv (fst (snd st)) \<Longrightarrow> tier_inv (fst (snd (reward_tiers trs groups pool ts now st)))"
  by (induction trs groups pool ts now st rule: reward_tiers.induct)
    (simp_all add: Let_def tier_inv_reward_members)

lemma tier_inv_distributeMonthlyRewards:
  "tier_inv d \<Longrightarrow> tier_inv (fst (snd (distributeMonthlyRewards ts now d t)))"
  using tier_inv_reward_tiers [of "(0, d, t)" "[FOUNDER, PLATINUM, GOLD, SILVER, RECOGNIZED]"
      "tierGroups (contributors d)" "UC_TO_UNITS MONTHLY_REWARD_POOL" ts now]
  by (simp add: distributeMonthlyRewards_def Let_def tier_inv_def del: reward_tiers.simps)

lemma tier_inv_call: "tier_inv d \<Longrightarrow> tier_inv (fst (registry_call op (d, t)))"
proof (cases op)
  case (CreateProposal p ttl descr now)
  then show "tier_inv d \<Longrightarrow> ?thesis"
    by (simp add: createProposal_def Let_def tier_inv_def)
next
  case (CastVote pid v vt now)
  then show "tier_inv d \<Longrightarrow> ?thesis"
    by (simp add: castVote_def Let_def tier_inv_def split: option.splits)
next
  case (ExecuteProposal pid now)
  then show "tier_inv d \<Longrightarrow> ?thesis"
    by (simp add: executeProposal_def Let_def tier_inv_def split: option.splits)
qed (simp_all add: tier_inv_registerContributor tier_inv_submitCompositeScore
      tier_inv_applyModuleBonus tier_inv_claimRewards tier_inv_distributeMonthlyRewards)

lemma tier_inv_run: "tier_inv (fst st) \<Longrightarrow> tier_inv (fst (registry_run ops st))"
proof (induction ops arbitrary: st)
  case Nil
  then show ?case by simp
next
  case (Cons op ops)
  obtain d t where st: "st = (d, t)" by (cases st)
  from Cons.prems have "tier_inv (fst (registry_call op st))"
    by (simp add: st tier_inv_call)
  then show ?case by (simp add: Cons.IH)
qed

lemma tier_inv_init: "tier_inv UCICDaoContract_init"
  by (simp add: tier_inv_def UCICDaoContract_init_def)

text \<open>
  What \<open>updateTier\<close> computes: after every sequence of operations on the fresh registry,
  the tier of every address is the threshold rule applied to \<open>compositeScore\<close>, the field
  that every new score overwrites. \<open>pointsEarned\<close> is accumulated and never read.
\<close>

lemma getTier_follows_compositeScore:
  "getTier (fst (registry_run ops (UCICDaoContract_init, t))) a
     = spec_tier_of_points (unat (getCompositeScore (fst (registry_run ops (UCICDaoContract_init, t))) a))"
proof -
  have inv: "tier_inv (fst (registry_run ops (UCICDaoContract_init, t)))"
    using tier_inv_run [of "(UCICDaoContract_init, t)" ops] by (simp add: tier_inv_init)
  show ?thesis
  proof (cases "map_of (contributors (fst (registry_run ops (UCICDaoContract_init, t)))) a")
    case None
    then show ?thesis
      by (simp add: getTier_def getCompositeScore_def spec_tier_of_points_def)
  next
    case (Some c)
    with inv show ?thesis
      by (simp add: getTier_def getCompositeScore_def tier_inv_def)
  qed
qed

text \<open>
  C4. The claim: \<open>getTier\<close> is the tier whose threshold (Recognized 0, Silver 100, Gold 250,
  Platinum 500) is the highest one not exceeding the contributor's accumulated points
  earned, so that a contributor with at least 100 points earned is never at Recognized. The
  code's comments put the thresholds on points (\<open>types.h\<close>: "100+ points", "250+ points",
  "500+ points"; \<open>getTierThreshold\<close>: "minimum points required"), and \<open>updateTier\<close> reads
  \<open>compositeScore\<close> instead: \<open>bob\<close>, scored 60 twice, has 120 points earned, for which the
  rule gives Silver, and is at tier Recognized.
\<close>

theorem tier_ignores_pointsEarned:
  "isContributor registry_two_scores ''bob''
   \<and> pointsEarned (getContributor registry_two_scores ''bob'') = 120
   \<and> getCompositeScore registry_two_scores ''bob'' = 60
   \<and> getTier registry_two_scores ''bob'' = RECOGNIZED
   \<and> spec_tier_of_points (unat (pointsEarned (getContributor registry_two_scores ''bob''))) = SILVER"
  by code_simp

theorem tier_ignores_pointsEarned_witness:
  "getTier registry_two_scores ''bob''
     \<noteq> spec_tier_of_points (unat (pointsEarned (getContributor registry_two_scores ''bob'')))"
proof -
  have a: "getTier registry_two_scores ''bob'' = RECOGNIZED"
    and b: "spec_tier_of_points (unat (pointsEarned (getContributor registry_two_scores ''bob''))) = SILVER"
    using tier_ignores_pointsEarned by blast+
  show ?thesis unfolding a b by simp
qed

text \<open>
  A new score lowers the tier while the points earned grow: with the four module bonuses
  \<open>bob\<close> is at Gold with 275 points; one submission of composite score 60 takes him to
  Recognized with 335 points.
\<close>

lemma new_score_demotes:
  "getTier registry_bonuses ''bob'' = GOLD
   \<and> pointsEarned (getContributor registry_bonuses ''bob'') = 275
   \<and> getTier (snd (submitCompositeScore ''bob'' scores_all_60 9 registry_bonuses)) ''bob'' = RECOGNIZED
   \<and> pointsEarned (getContributor
         (snd (submitCompositeScore ''bob'' scores_all_60 9 registry_bonuses)) ''bob'') = 335"
  by code_simp

subsection \<open>The monthly reward pool (C5)\<close>

text \<open>
  C5. The claim: one call of \<open>distributeMonthlyRewards\<close> moves at most the monthly pool of
  30 UC out of the treasury. The shares of the four tiers that scoring reaches are 20, 20, 30
  and 40 percent of the pool, 110 percent together: with one contributor in each of these
  tiers and the fresh ledger, all four payments succeed and the treasury loses 33 UC.
\<close>

theorem monthly_rewards_exceed_pool:
  "map (getTier (fst registry_four_tiers)) [''alice'', ''bob'', ''carol'', ''dave''] = [RECOGNIZED, SILVER, GOLD, PLATINUM]
   \<and> treasuryBalance (snd registry_four_tiers) = 100000000000
   \<and> fst (distributeMonthlyRewards 1 1 (fst registry_four_tiers) (snd registry_four_tiers)) = 4
   \<and> treasuryBalance (snd (snd (distributeMonthlyRewards 1 1 (fst registry_four_tiers) (snd registry_four_tiers)))) = 100000000000 - 3300000000
   \<and> balanceOf (snd (snd (distributeMonthlyRewards 1 1 (fst registry_four_tiers) (snd registry_four_tiers)))) ''__TREASURY__''
        = 100000000000 - 3300000000
   \<and> UC_TO_UNITS MONTHLY_REWARD_POOL = 3000000000"
  by code_simp

theorem monthly_rewards_exceed_pool_witness:
  "treasuryBalance (snd registry_four_tiers) - treasuryBalance (snd (snd (distributeMonthlyRewards 1 1 (fst registry_four_tiers) (snd registry_four_tiers))))
     = 3300000000
   \<and> UC_TO_UNITS MONTHLY_REWARD_POOL < 3300000000"
  using monthly_rewards_exceed_pool by simp

section \<open>Facts about the oracle\<close>

lemma recordAction_frame [simp]:
  "submissions (snd (recordAction a b c now oc)) = submissions oc"
  "verificationChains (snd (recordAction a b c now oc)) = verificationChains oc"
  "verifiers (snd (recordAction a b c now oc)) = verifiers oc"
  by (simp_all add: recordAction_def Let_def)

lemma verifySubmission_rejected:
  "submissions oc sid = None \<or> \<not> isVerifier oc v \<Longrightarrow> verifySubmission sid v a n now oc = (False, oc)"
  by (auto simp: verifySubmission_def split: option.splits)

lemma verifySubmission_accepted:
  assumes "submissions oc sid = Some sub" and "isVerifier oc v"
  shows "fst (verifySubmission sid v a n now oc)"
    and "submissions (snd (verifySubmission sid v a n now oc)) sid =
           Some (sub\<lparr>verifierCount := verifierCount sub + 1,
                     verificationLevel := updated_level (verifierCount sub + 1) a (verificationLevel sub)\<rparr>)"
    and "getVerificationChain (snd (verifySubmission sid v a n now oc)) sid =
           getVerificationChain oc sid @ [call_record (v, a, n, now)]"
  using assms
  by (simp_all add: verifySubmission_def Let_def getVerificationChain_def call_record_def)

lemma verifySubmission_verifiers [simp]:
  "verifiers (snd (verifySubmission sid v a n now oc)) = verifiers oc"
  by (simp add: verifySubmission_def Let_def split: option.splits)

lemma verify_run_verifiers [simp]: "verifiers (verify_run sid cs oc) = verifiers oc"
  by (induction sid cs oc rule: verify_run.induct) simp_all

lemma verify_run_snoc:
  "verify_run sid (cs @ [(v, a, n, now)]) oc = snd (verifySubmission sid v a n now (verify_run sid cs oc))"
  by (induction sid cs oc rule: verify_run.induct) simp_all

lemma updated_level_no_wrap:
  assumes "k < 255"
  shows "updated_level (of_nat k + 1) a old = quorum_level (Suc k) a"
proof -
  have "unat (of_nat (Suc k) :: uint8) = Suc k"
    using assms by (simp only: unat_of_nat) simp
  then have "unat (of_nat k + 1 :: uint8) = Suc k"
    by (simp add: add.commute)
  then show ?thesis
    by (simp add: updated_level_def quorum_level_def word_le_nat_alt)
qed

lemma verify_run_fresh:
  assumes "submissions oc sid = Some sub" and "verifierCount sub = 0"
    and "verificationLevel sub = UNVERIFIED"
  shows "length (accepted_calls oc cs) \<le> 255 \<Longrightarrow>
     (\<exists>sub'. submissions (verify_run sid cs oc) sid = Some sub'
         \<and> verifierCount sub' = of_nat (length (accepted_calls oc cs))
         \<and> verificationLevel sub' =
             (if accepted_calls oc cs = [] then UNVERIFIED
              else quorum_level (length (accepted_calls oc cs)) (fst (snd (last (accepted_calls oc cs))))))
     \<and> getVerificationChain (verify_run sid cs oc) sid =
         getVerificationChain oc sid @ map call_record (accepted_calls oc cs)"
proof (induction cs rule: rev_induct)
  case Nil
  with assms show ?case by (simp add: accepted_calls_def)
next
  case (snoc c cs)
  obtain v a n now where c: "c = (v, a, n, now)" by (cases c) auto
  let ?o1 = "verify_run sid cs oc"
  let ?acc = "accepted_calls oc cs"
  from snoc.prems have len: "length ?acc \<le> 255"
    by (simp add: accepted_calls_def)
  from snoc.IH [OF len] obtain sub' where sub':
    "submissions ?o1 sid = Some sub'"
    "verifierCount sub' = of_nat (length ?acc)"
    "verificationLevel sub' =
       (if ?acc = [] then UNVERIFIED else quorum_level (length ?acc) (fst (snd (last ?acc))))"
    and chain: "getVerificationChain ?o1 sid = getVerificationChain oc sid @ map call_record ?acc"
    by blast
  show ?case
  proof (cases "isVerifier oc v")
    case False
    then have "\<not> isVerifier ?o1 v" by (simp add: isVerifier_def)
    then have "verifySubmission sid v a n now ?o1 = (False, ?o1)"
      by (simp add: verifySubmission_rejected)
    with False sub' chain show ?thesis
      by (simp add: c verify_run_snoc accepted_calls_def)
  next
    case True
    then have v1: "isVerifier ?o1 v" by (simp add: isVerifier_def)
    from True snoc.prems have k: "Suc (length ?acc) \<le> 255"
      by (simp add: c accepted_calls_def)
    have acc: "accepted_calls oc (cs @ [(v, a, n, now)]) = ?acc @ [(v, a, n, now)]"
      using True by (simp add: accepted_calls_def)
    from k have k': "length ?acc < 255" by simp
    note step = verifySubmission_accepted [OF sub'(1) v1, of a n now]
    have "submissions (verify_run sid (cs @ [c]) oc) sid =
            Some (sub'\<lparr>verifierCount := of_nat (length ?acc) + 1,
                       verificationLevel := quorum_level (Suc (length ?acc)) a\<rparr>)"
      using step(2) unfolding sub'(2) updated_level_no_wrap [OF k']
      by (simp only: c verify_run_snoc)
    moreover have "getVerificationChain (verify_run sid (cs @ [c]) oc) sid =
            getVerificationChain oc sid @ map call_record (?acc @ [(v, a, n, now)])"
      using step(3) chain by (simp add: c verify_run_snoc)
    ultimately show ?thesis
      unfolding c acc by simp
  qed
qed

subsection \<open>The scenario states\<close>

lemma oracle_submitted_facts:
  "map_option verifierCount (submissions oracle_submitted ''sub_bob_0'') = Some 0"
  "map_option verificationLevel (submissions oracle_submitted ''sub_bob_0'') = Some UNVERIFIED"
  "getVerificationChain oracle_submitted ''sub_bob_0'' = []"
  "isVerifier oracle_submitted ''v''"
  by code_simp+

lemma oracle_submitted_fresh:
  obtains sub where "submissions oracle_submitted ''sub_bob_0'' = Some sub"
    and "verifierCount sub = 0" and "verificationLevel sub = UNVERIFIED"
  using oracle_submitted_facts(1,2) by (cases "submissions oracle_submitted ''sub_bob_0''") auto

lemma oracle_advanced_facts:
  "map_option verificationLevel (submissions oracle_advanced ''sub_bob_0'') = Some ADVANCED"
  "map_option targetContributor (submissions oracle_advanced ''sub_bob_0'') = Some ''bob''"
  "map_option (\<lambda>s. composite_of_scores (scores s)) (submissions oracle_advanced ''sub_bob_0'') = Some 85"
  "submissions oracle_advanced ''sub_missing'' = None"
  by code_simp+

subsection \<open>Quorum gating (C3)\<close>

text \<open>
  While the 8-bit verifier count has not wrapped (at most 255 accepted verifications of a
  fresh submission), the level is \<open>AUDIT_COMPLETE\<close> exactly when at least three records have
  been appended and the last one is an approval.
\<close>

lemma quorum_gating_up_to_255:
  assumes "submissions oc sid = Some sub" and "verifierCount sub = 0"
    and "verificationLevel sub = UNVERIFIED" and "getVerificationChain oc sid = []"
    and "length (accepted_calls oc cs) \<le> 255"
  shows "(getVerificationStatus (verify_run sid cs oc) sid = AUDIT_COMPLETE)
       = (3 \<le> length (getVerificationChain (verify_run sid cs oc) sid)
          \<and> approved (last (getVerificationChain (verify_run sid cs oc) sid)))"
proof -
  from verify_run_fresh [OF assms(1-3) assms(5)] assms(4)
  obtain sub' where s: "submissions (verify_run sid cs oc) sid = Some sub'"
    "verificationLevel sub' =
       (if accepted_calls oc cs = [] then UNVERIFIED
        else quorum_level (length (accepted_calls oc cs)) (fst (snd (last (accepted_calls oc cs)))))"
    and ch: "getVerificationChain (verify_run sid cs oc) sid = map call_record (accepted_calls oc cs)"
    by auto
  show ?thesis
  proof (cases "accepted_calls oc cs = []")
    case True
    with s ch show ?thesis by (simp add: getVerificationStatus_def)
  next
    case False
    then have "approved (last (map call_record (accepted_calls oc cs)))
             = fst (snd (last (accepted_calls oc cs)))"
      by (simp add: last_map call_record_def)
    with False s ch show ?thesis
      by (auto simp: getVerificationStatus_def quorum_level_def)
  qed
qed

text \<open>
  C3. The claim: for every sequence of operations, the level is \<open>AUDIT_COMPLETE\<close> if and
  only if at least three records have been appended and the most recent one is an approval.
  \<open>verifierCount\<close> is a \<open>uint8\<close>: the 256th accepted verification takes it from 255 to 0 and
  the level update is skipped. After 255 approvals and one rejection the submission is still
  at \<open>AUDIT_COMPLETE\<close>, with 256 records of which the most recent is a rejection.
\<close>

theorem quorum_lost_at_256:
  "getVerificationStatus
      (verify_run ''sub_bob_0'' (replicate 255 (''v'', True, [], 1) @ [(''v'', False, [], 2)])
         oracle_submitted) ''sub_bob_0'' = AUDIT_COMPLETE
   \<and> length (getVerificationChain
      (verify_run ''sub_bob_0'' (replicate 255 (''v'', True, [], 1) @ [(''v'', False, [], 2)])
         oracle_submitted) ''sub_bob_0'') = 256
   \<and> approved (last (getVerificationChain
      (verify_run ''sub_bob_0'' (replicate 255 (''v'', True, [], 1) @ [(''v'', False, [], 2)])
         oracle_submitted) ''sub_bob_0'')) = False"
proof -
  let ?cs = "replicate 255 (''v'', True, [], 1) :: verify_call list"
  let ?o1 = "verify_run ''sub_bob_0'' ?cs oracle_submitted"
  obtain sub where sub: "submissions oracle_submitted ''sub_bob_0'' = Some sub"
    "verifierCount sub = 0" "verificationLevel sub = UNVERIFIED"
    by (rule oracle_submitted_fresh)
  have acc: "accepted_calls oracle_submitted ?cs = ?cs"
    using oracle_submitted_facts(4) by (simp add: accepted_calls_def)
  have len: "length (accepted_calls oracle_submitted ?cs) \<le> 255"
    unfolding acc by simp
  have k: "length ?cs = 255" and ne: "?cs \<noteq> []" and lst: "last ?cs = (''v'', True, [], 1)"
    by simp_all
  from verify_run_fresh [OF sub len, unfolded acc]
  obtain sub' where raw: "submissions ?o1 ''sub_bob_0'' = Some sub'"
    "verifierCount sub' = of_nat (length ?cs)"
    "verificationLevel sub' =
       (if ?cs = [] then UNVERIFIED else quorum_level (length ?cs) (fst (snd (last ?cs))))"
    and chain: "getVerificationChain ?o1 ''sub_bob_0'' =
       getVerificationChain oracle_submitted ''sub_bob_0'' @ map call_record ?cs"
    by blast
  have s': "submissions ?o1 ''sub_bob_0'' = Some sub'"
    "verifierCount sub' = 255" "verificationLevel sub' = AUDIT_COMPLETE"
    using raw unfolding k lst by (simp_all add: ne quorum_level_def)
  have ch: "length (getVerificationChain ?o1 ''sub_bob_0'') = 255"
    unfolding chain oracle_submitted_facts(3) by simp
  have v: "isVerifier ?o1 ''v''"
    using oracle_submitted_facts(4) by (simp add: isVerifier_def)
  note step = verifySubmission_accepted [OF s'(1) v, of False "[]" 2]
  have wrap: "verifierCount sub' + 1 = 0"
    unfolding s'(2) by simp
  have lvl: "updated_level (verifierCount sub' + 1) False (verificationLevel sub') = AUDIT_COMPLETE"
    unfolding wrap by (simp add: s'(3) updated_level_def)
  show ?thesis
    using step(2,3) ch
    by (simp add: verify_run_snoc lvl getVerificationStatus_def call_record_def)
qed

theorem quorum_lost_at_256_witness:
  "getVerificationStatus
      (verify_run ''sub_bob_0'' (replicate 255 (''v'', True, [], 1) @ [(''v'', False, [], 2)])
         oracle_submitted) ''sub_bob_0'' = AUDIT_COMPLETE
   \<and> \<not> approved (last (getVerificationChain
      (verify_run ''sub_bob_0'' (replicate 255 (''v'', True, [], 1) @ [(''v'', False, [], 2)])
         oracle_submitted) ''sub_bob_0''))"
  using quorum_lost_at_256 by simp

subsection \<open>The level after a verification (C8)\<close>

text \<open>
  C8, as the code has it. On a fresh submission and after fewer than 255 accepted
  verifications, a successful \<open>verifySubmission\<close> sets the level from the new count and the
  decision alone: an approval never lowers the level, and a rejection sets it to \<open>BASIC\<close>,
  whatever it was.
\<close>

theorem verifySubmission_level_step:
  assumes "submissions oc sid = Some sub" and "verifierCount sub = 0"
    and "verificationLevel sub = UNVERIFIED"
    and "length (accepted_calls oc cs) < 255"
    and "fst (verifySubmission sid v a n now (verify_run sid cs oc))"
  shows "getVerificationStatus (snd (verifySubmission sid v a n now (verify_run sid cs oc))) sid
           = quorum_level (Suc (length (accepted_calls oc cs))) a
       \<and> (a \<longrightarrow> level_index (getVerificationStatus (verify_run sid cs oc) sid)
                \<le> level_index (getVerificationStatus
                     (snd (verifySubmission sid v a n now (verify_run sid cs oc))) sid))
       \<and> (\<not> a \<longrightarrow> getVerificationStatus
                     (snd (verifySubmission sid v a n now (verify_run sid cs oc))) sid = BASIC)"
proof -
  let ?o1 = "verify_run sid cs oc"
  let ?k = "length (accepted_calls oc cs)"
  from assms(4) have len: "?k \<le> 255" by simp
  from verify_run_fresh [OF assms(1-3) len]
  obtain sub' where s': "submissions ?o1 sid = Some sub'"
    "verifierCount sub' = of_nat ?k"
    "verificationLevel sub' =
       (if accepted_calls oc cs = [] then UNVERIFIED
        else quorum_level ?k (fst (snd (last (accepted_calls oc cs)))))"
    by blast
  have v: "isVerifier ?o1 v"
  proof (rule ccontr)
    assume "\<not> isVerifier ?o1 v"
    then have "verifySubmission sid v a n now ?o1 = (False, ?o1)"
      by (simp add: verifySubmission_rejected)
    with assms(5) show False by simp
  qed
  note step = verifySubmission_accepted [OF s'(1) v, of a n now]
  have new: "getVerificationStatus (snd (verifySubmission sid v a n now ?o1)) sid
           = quorum_level (Suc ?k) a"
    using step(2) unfolding s'(2) updated_level_no_wrap [OF assms(4)]
    by (simp add: getVerificationStatus_def)
  have old: "getVerificationStatus ?o1 sid = verificationLevel sub'"
    using s'(1) by (simp add: getVerificationStatus_def)
  have "a \<Longrightarrow> level_index (verificationLevel sub') \<le> level_index (quorum_level (Suc ?k) a)"
    unfolding s'(3) by (auto simp: quorum_level_def)
  then show ?thesis
    unfolding new old by (auto simp: quorum_level_def)
qed

lemma oracle_submitted_second_call:
  "fst (verifySubmission ''sub_bob_0'' ''v'' False ''Not enough tests'' 2
     (verify_run ''sub_bob_0'' [(''v'', True, ''Looks good'', 1)] oracle_submitted))"
  by code_simp

theorem verifySubmission_level_step_witness:
  "length (accepted_calls oracle_submitted [(''v'', True, ''Looks good'', 1)]) < 255
   \<and> fst (verifySubmission ''sub_bob_0'' ''v'' False ''Not enough tests'' 2
        (verify_run ''sub_bob_0'' [(''v'', True, ''Looks good'', 1)] oracle_submitted))
   \<and> getVerificationStatus (snd (verifySubmission ''sub_bob_0'' ''v'' False ''Not enough tests'' 2
        (verify_run ''sub_bob_0'' [(''v'', True, ''Looks good'', 1)] oracle_submitted))) ''sub_bob_0''
      = BASIC"
proof -
  obtain sub where sub: "submissions oracle_submitted ''sub_bob_0'' = Some sub"
    "verifierCount sub = 0" "verificationLevel sub = UNVERIFIED"
    by (rule oracle_submitted_fresh)
  have len: "length (accepted_calls oracle_submitted [(''v'', True, ''Looks good'', 1)]) < 255"
    by (simp add: accepted_calls_def)
  from verifySubmission_level_step [OF sub len oracle_submitted_second_call]
  show ?thesis using len oracle_submitted_second_call by (simp add: quorum_level_def)
qed

text \<open>
  C8 as claimed fails: a successful rejecting verification takes the submission from
  \<open>ADVANCED\<close> down to \<open>BASIC\<close>.
\<close>

theorem rejection_lowers_level:
  "fst (verifySubmission ''sub_bob_0'' ''v'' False ''Not enough tests'' 2 oracle_advanced)
   \<and> getVerificationStatus oracle_advanced ''sub_bob_0'' = ADVANCED
   \<and> getVerificationStatus
        (snd (verifySubmission ''sub_bob_0'' ''v'' False ''Not enough tests'' 2 oracle_advanced))
        ''sub_bob_0'' = BASIC"
  by code_simp

subsection \<open>Forwarding into the registry (C6)\<close>

lemma submitCompositeScore_registered:
  assumes "map_of (contributors d) k = Some c"
  shows "fst (submitCompositeScore k scs now d)"
    and "\<exists>c'. map_of (contributors (snd (submitCompositeScore k scs now d))) k = Some c'
           \<and> pointsEarned c' = pointsEarned c + ucast (composite_of_scores scs)
           \<and> compositeScore c' = composite_of_scores scs"
  using assms
  by (simp_all add: submitCompositeScore_def Let_def map_of_contrib_update map_of_updateTier)

text \<open>
  What \<open>registerWithDao\<close> does. It returns false and leaves the registry as it was when the
  submission is unknown or its level is below \<open>ADVANCED\<close>. Otherwise it runs
  \<open>submitCompositeScore\<close>, on every call: for a registered target contributor each call
  succeeds and adds the submission's composite score to \<open>pointsEarned\<close>.
\<close>

lemma registerWithDao_gate_and_repeat:
  "(submissions oc sid = None \<longrightarrow> registerWithDao sid now oc d = (False, d))
   \<and> (\<forall>sub. submissions oc sid = Some sub
          \<longrightarrow> level_index (verificationLevel sub) < level_index ADVANCED
          \<longrightarrow> registerWithDao sid now oc d = (False, d))
   \<and> (\<forall>sub c. submissions oc sid = Some sub
          \<longrightarrow> level_index ADVANCED \<le> level_index (verificationLevel sub)
          \<longrightarrow> map_of (contributors d) (targetContributor sub) = Some c
          \<longrightarrow> fst (registerWithDao sid now oc d)
              \<and> pointsEarned (getContributor (snd (registerWithDao sid now oc d)) (targetContributor sub))
                  = pointsEarned c + ucast (composite_of_scores (scores sub))
              \<and> fst (registerWithDao sid now' oc (snd (registerWithDao sid now oc d)))
              \<and> pointsEarned (getContributor
                    (snd (registerWithDao sid now' oc (snd (registerWithDao sid now oc d))))
                    (targetContributor sub))
                  = pointsEarned c + ucast (composite_of_scores (scores sub))
                      + ucast (composite_of_scores (scores sub)))"
proof (intro conjI allI impI)
  show "submissions oc sid = None \<Longrightarrow> registerWithDao sid now oc d = (False, d)"
    by (simp add: registerWithDao_def)
next
  fix sub
  show "submissions oc sid = Some sub \<Longrightarrow> level_index (verificationLevel sub) < level_index ADVANCED
      \<Longrightarrow> registerWithDao sid now oc d = (False, d)"
    by (simp add: registerWithDao_def)
next
  fix sub c
  assume sub: "submissions oc sid = Some sub"
    and lvl: "level_index ADVANCED \<le> level_index (verificationLevel sub)"
    and c: "map_of (contributors d) (targetContributor sub) = Some c"
  let ?k = "targetContributor sub"
  have r: "\<And>now d. registerWithDao sid now oc d = submitCompositeScore ?k (scores sub) now d"
    using sub lvl by (simp add: registerWithDao_def)
  from submitCompositeScore_registered [OF c, of "scores sub" now]
  obtain c1 where c1: "fst (submitCompositeScore ?k (scores sub) now d)"
    "map_of (contributors (snd (submitCompositeScore ?k (scores sub) now d))) ?k = Some c1"
    "pointsEarned c1 = pointsEarned c + ucast (composite_of_scores (scores sub))"
    by blast
  from submitCompositeScore_registered [OF c1(2), of "scores sub" now']
  obtain c2 where c2:
    "fst (submitCompositeScore ?k (scores sub) now' (snd (submitCompositeScore ?k (scores sub) now d)))"
    "map_of (contributors (snd (submitCompositeScore ?k (scores sub) now'
        (snd (submitCompositeScore ?k (scores sub) now d))))) ?k = Some c2"
    "pointsEarned c2 = pointsEarned c1 + ucast (composite_of_scores (scores sub))"
    by blast
  show "fst (registerWithDao sid now oc d)"
    using c1(1) by (simp add: r)
  show "pointsEarned (getContributor (snd (registerWithDao sid now oc d)) ?k)
      = pointsEarned c + ucast (composite_of_scores (scores sub))"
    using c1(2,3) by (simp add: r getContributor_def)
  show "fst (registerWithDao sid now' oc (snd (registerWithDao sid now oc d)))"
    using c2(1) by (simp add: r)
  show "pointsEarned (getContributor
          (snd (registerWithDao sid now' oc (snd (registerWithDao sid now oc d)))) ?k)
      = pointsEarned c + ucast (composite_of_scores (scores sub))
          + ucast (composite_of_scores (scores sub))"
    using c2(2,3) c1(3) by (simp add: r getContributor_def)
qed

lemma registerWithDao_gate_and_repeat_example:
  "registerWithDao ''sub_missing'' 2 oracle_advanced dao_bob = (False, dao_bob)
   \<and> fst (registerWithDao ''sub_bob_0'' 2 oracle_advanced dao_bob)
   \<and> pointsEarned (getContributor (snd (registerWithDao ''sub_bob_0'' 2 oracle_advanced dao_bob)) ''bob'') = 85
   \<and> pointsEarned (getContributor (snd (registerWithDao ''sub_bob_0'' 3 oracle_advanced
        (snd (registerWithDao ''sub_bob_0'' 2 oracle_advanced dao_bob)))) ''bob'') = 170"
proof -
  obtain sub where sub: "submissions oracle_advanced ''sub_bob_0'' = Some sub"
    "verificationLevel sub = ADVANCED" "targetContributor sub = ''bob''"
    "composite_of_scores (scores sub) = 85"
    using oracle_advanced_facts(1-3) by (cases "submissions oracle_advanced ''sub_bob_0''") auto
  obtain c where c: "map_of (contributors dao_bob) ''bob'' = Some c" "pointsEarned c = 0"
    using dao_bob_facts(1) by (cases "map_of (contributors dao_bob) ''bob''") auto
  have lvl: "level_index ADVANCED \<le> level_index (verificationLevel sub)"
    by (simp add: sub(2))
  have c': "map_of (contributors dao_bob) (targetContributor sub) = Some c"
    by (simp add: sub(3) c(1))
  note gate = registerWithDao_gate_and_repeat [of oracle_advanced "''sub_missing''" 2 dao_bob 3]
  note rep = registerWithDao_gate_and_repeat [of oracle_advanced "''sub_bob_0''" 2 dao_bob 3]
  from gate have g: "registerWithDao ''sub_missing'' 2 oracle_advanced dao_bob = (False, dao_bob)"
    using oracle_advanced_facts(4) by blast
  from rep sub(1) lvl c' have
    "fst (registerWithDao ''sub_bob_0'' 2 oracle_advanced dao_bob)
     \<and> pointsEarned (getContributor (snd (registerWithDao ''sub_bob_0'' 2 oracle_advanced dao_bob))
          (targetContributor sub)) = pointsEarned c + ucast (composite_of_scores (scores sub))
     \<and> fst (registerWithDao ''sub_bob_0'' 3 oracle_advanced
          (snd (registerWithDao ''sub_bob_0'' 2 oracle_advanced dao_bob)))
     \<and> pointsEarned (getContributor (snd (registerWithDao ''sub_bob_0'' 3 oracle_advanced
          (snd (registerWithDao ''sub_bob_0'' 2 oracle_advanced dao_bob)))) (targetContributor sub))
         = pointsEarned c + ucast (composite_of_scores (scores sub))
             + ucast (composite_of_scores (scores sub))"
    by blast
  with g show ?thesis
    by (simp add: sub(3,4) c(2))
qed

text \<open>
  The registration status that the header documents for \<open>isRegisteredWithDao\<close> ("true if
  registered with DAO") is never recorded: the function re-reads the level, and is true of
  a submission that has not been forwarded.
\<close>

lemma isRegisteredWithDao_before_forwarding:
  "isRegisteredWithDao oracle_advanced ''sub_bob_0''
   \<and> pointsEarned (getContributor dao_bob ''bob'') = 0"
  by code_simp

text \<open>
  C6. The claim: \<open>registerWithDao\<close> fails without changing the registry when the submission
  is unknown or below \<open>ADVANCED\<close>, and a second call for a submission at \<open>ADVANCED\<close> or
  above does not add its composite score to \<open>pointsEarned\<close> again. The first part holds
  (\<open>registerWithDao_gate_and_repeat\<close>). The second does not: the submission of \<open>bob\<close>, of
  composite score 85 and at level \<open>ADVANCED\<close>, is forwarded twice, both calls return true,
  and \<open>pointsEarned\<close> is 85 after the first call and 170 after the second.
\<close>

theorem registerWithDao_counts_twice:
  "getVerificationStatus oracle_advanced ''sub_bob_0'' = ADVANCED
   \<and> fst (registerWithDao ''sub_bob_0'' 2 oracle_advanced dao_bob)
   \<and> fst (registerWithDao ''sub_bob_0'' 3 oracle_advanced
            (snd (registerWithDao ''sub_bob_0'' 2 oracle_advanced dao_bob)))
   \<and> pointsEarned (getContributor (snd (registerWithDao ''sub_bob_0'' 2 oracle_advanced dao_bob)) ''bob'') = 85
   \<and> pointsEarned (getContributor (snd (registerWithDao ''sub_bob_0'' 3 oracle_advanced
            (snd (registerWithDao ''sub_bob_0'' 2 oracle_advanced dao_bob)))) ''bob'') = 170"
  by code_simp

theorem registerWithDao_counts_twice_witness:
  "pointsEarned (getContributor (snd (registerWithDao ''sub_bob_0'' 3 oracle_advanced
        (snd (registerWithDao ''sub_bob_0'' 2 oracle_advanced dao_bob)))) ''bob'')
     \<noteq> pointsEarned (getContributor
        (snd (registerWithDao ''sub_bob_0'' 2 oracle_advanced dao_bob)) ''bob'')"
proof -
  have a: "pointsEarned (getContributor
             (snd (registerWithDao ''sub_bob_0'' 2 oracle_advanced dao_bob)) ''bob'') = 85"
    and b: "pointsEarned (getContributor (snd (registerWithDao ''sub_bob_0'' 3 oracle_advanced
             (snd (registerWithDao ''sub_bob_0'' 2 oracle_advanced dao_bob)))) ''bob'') = 170"
    using registerWithDao_counts_twice by blast+
  show ?thesis unfolding a b by simp
qed

end
